theory Spec2Isabelle
  imports Complex_Main
begin

section \<open>JavaScript values\<close>

text \<open>
  The program is TypeScript over data of type \<open>any\<close>: diary records read from
  \<open>localStorage\<close> through \<open>JSON.parse\<close>, rows returned by the remote client, backup
  documents. Such a value is a \<open>jsval\<close>. A number is an IEEE double: \<open>NaN\<close>, the two
  infinities, or a finite value (every finite double is a rational; both zeros are
  \<open>Fin 0\<close>). A string is kept as its list of bytes; the program only compares strings,
  tests them for emptiness and stores them. An object is the list of its own properties.
\<close>

datatype jsnum = NaN | PosInf | NegInf | Fin rat

datatype jsval =
    JUndefined
  | JNull
  | JBool bool
  | JNumber jsnum
  | JString string
  | JArray "jsval list"
  | JObject "(string \<times> jsval) list"

text \<open>Truthiness, as tested by \<open>if (v)\<close>, \<open>!v\<close> and \<open>a || b\<close>.\<close>

fun truthy :: "jsval \<Rightarrow> bool" where
  "truthy JUndefined = False"
| "truthy JNull = False"
| "truthy (JBool b) = b"
| "truthy (JNumber n) = (n \<noteq> NaN \<and> n \<noteq> Fin 0)"
| "truthy (JString s) = (s \<noteq> [])"
| "truthy (JArray xs) = True"
| "truthy (JObject kvs) = True"

text \<open>
  \<open>a || b\<close> where evaluating \<open>b\<close> has no effect. Where the right operand reads the
  clock, the model writes the test out.
\<close>

definition js_or :: "jsval \<Rightarrow> jsval \<Rightarrow> jsval" where
  "js_or a b = (if truthy a then a else b)"

text \<open>Exceptions raised by the engine or by the remote client (a rejected promise).\<close>

datatype js_exn = TypeError | SyntaxError | Rejected string

text \<open>
  Property read \<open>v.k\<close>, for the property names this program reads (none of them is a
  property of a string, number, boolean or array prototype): \<open>undefined\<close> and \<open>null\<close>
  raise TypeError (\<open>nullish\<close>), an object gives the property or \<open>undefined\<close>, any other
  value gives \<open>undefined\<close>. \<open>field\<close> is the read on a value that is not \<open>nullish\<close>; the
  model tests \<open>nullish\<close> where the source first reads a property of the value.
\<close>

fun field :: "jsval \<Rightarrow> string \<Rightarrow> jsval" where
  "field (JObject kvs) k = (case map_of kvs k of Some v \<Rightarrow> v | None \<Rightarrow> JUndefined)"
| "field v k = JUndefined"

fun nullish :: "jsval \<Rightarrow> bool" where
  "nullish JUndefined = True"
| "nullish JNull = True"
| "nullish v = False"

text \<open>Optional chaining \<open>v?.k\<close>.\<close>

definition opt_chain :: "jsval \<Rightarrow> string \<Rightarrow> jsval" where
  "opt_chain v k = (if nullish v then JUndefined else field v k)"

section \<open>Environment: configuration, built-ins and the remote backend\<close>

text \<open>
  Everything the program takes from outside is a field of \<open>env\<close>:
  \<^item> the three \<open>import.meta.env\<close> variables of \<open>lib/supabase.ts\<close>;
  \<^item> \<open>getCurrentUser\<close> of \<open>lib/deviceAuth\<close> (its source is not part of the
    development): the signed-in user or nothing, at each moment;
  \<^item> the built-ins \<open>JSON.parse\<close> (nothing: SyntaxError), \<open>JSON.stringify\<close>, the
    conversion of a string and of an object or array to a number (as \<open>Number(v)\<close> does),
    \<open>Object.entries\<close> of a value that is not a plain object, the clock as
    \<open>new Date().toISOString()\<close> and as \<open>Date.now().toString()\<close>;
  \<^item> the backend: whether a request fails on its way (an error reply or a rejected
    promise), the identifier \<open>gen_random_uuid()\<close> gives a new row, and the verdict of the
    diary relation on an upsert (its constraints and policies are not modelled);
  \<^item> the answer of the user to \<open>window.confirm\<close>.
  The functions of a moment take the number of events of the trace so far, so that every
  sequence of answers is an environment.
\<close>

datatype pg_error = PgError (code: string) (message: string)

datatype fault = Refuse pg_error | Reject string

datatype device_user = DeviceUser (user_lineUsername: string)

record env =
  VITE_LOCAL_MODE :: "string option"
  VITE_SUPABASE_URL :: "string option"
  VITE_SUPABASE_ANON_KEY :: "string option"
  getCurrentUser :: "nat \<Rightarrow> device_user option"
  JSON_parse :: "string \<Rightarrow> jsval option"
  JSON_stringify :: "jsval \<Rightarrow> string"
  StringToNumber :: "string \<Rightarrow> jsnum"
  ObjectToNumber :: "jsval \<Rightarrow> jsnum"
  Object_entries_other :: "jsval \<Rightarrow> (string \<times> jsval) list"
  toISOString :: "nat \<Rightarrow> string"
  Date_now :: "nat \<Rightarrow> string"
  fault :: "nat \<Rightarrow> fault option"
  gen_random_uuid :: "nat \<Rightarrow> string"
  diary_verdict :: "nat \<Rightarrow> jsval list \<Rightarrow> pg_error option"
  window_confirm :: "nat \<Rightarrow> bool"

text \<open>\<open>lib/supabase.ts\<close>, lines 4 to 12.\<close>

definition isLocalMode :: "env \<Rightarrow> bool" where
  "isLocalMode e = (VITE_LOCAL_MODE e = Some ''true'')"

definition configured :: "string option \<Rightarrow> bool" where
  "configured v = (case v of None \<Rightarrow> False | Some s \<Rightarrow> s \<noteq> [])"

text \<open>\<open>supabase\<close> is the client or \<open>null\<close>; the model keeps whether it is a client.\<close>

definition supabase :: "env \<Rightarrow> bool" where
  "supabase e =
     (\<not> isLocalMode e \<and> configured (VITE_SUPABASE_URL e) \<and> configured (VITE_SUPABASE_ANON_KEY e))"

text \<open>\<open>Number(v)\<close>.\<close>

fun Number :: "env \<Rightarrow> jsval \<Rightarrow> jsnum" where
  "Number e JUndefined = NaN"
| "Number e JNull = Fin 0"
| "Number e (JBool b) = (if b then Fin 1 else Fin 0)"
| "Number e (JNumber n) = n"
| "Number e (JString s) = StringToNumber e s"
| "Number e v = ObjectToNumber e v"

section \<open>The world: local storage, the remote users relation, the trace\<close>

text \<open>
  The requests the program sends through the client:
  \<^item> \<open>from('users').select('*').eq('line_username', n).single()\<close>,
  \<^item> \<open>from('users').select('id').eq('line_username', n).single()\<close>,
  \<^item> \<open>from('users').insert([{line_username: n}]).select().single()\<close>,
  \<^item> \<open>from('diary_entries').upsert(rows, {onConflict: 'id', ignoreDuplicates: false})\<close>.
\<close>

datatype request =
    SelectUser string
  | SelectUserId string
  | InsertUser string
  | UpsertDiaries "jsval list"

datatype event =
    GetCurrentUser
  | GetItem string
  | SetItem string string
  | Clear
  | ClockRead
  | Request request
  | ReloadScheduled

type_synonym row = "(string \<times> jsval) list"

record world =
  localStorage :: "string \<rightharpoonup> string"
  users :: "row list"
  trace :: "event list"

text \<open>The trace holds the newest event first.\<close>

definition emit :: "event \<Rightarrow> world \<Rightarrow> world" where
  "emit ev w = w\<lparr>trace := ev # trace w\<rparr>"

definition moment :: "world \<Rightarrow> nat" where
  "moment w = length (trace w)"

definition getItem :: "string \<Rightarrow> world \<Rightarrow> string option \<times> world" where
  "getItem k w = (localStorage w k, emit (GetItem k) w)"

definition setItem :: "string \<Rightarrow> string \<Rightarrow> world \<Rightarrow> world" where
  "setItem k v w = emit (SetItem k v) (w\<lparr>localStorage := (localStorage w)(k \<mapsto> v)\<rparr>)"

definition clear :: "world \<Rightarrow> world" where
  "clear w = emit Clear (w\<lparr>localStorage := Map.empty\<rparr>)"

definition new_Date_toISOString :: "env \<Rightarrow> world \<Rightarrow> string \<times> world" where
  "new_Date_toISOString e w = (toISOString e (moment w), emit ClockRead w)"

definition Date_now_toString :: "env \<Rightarrow> world \<Rightarrow> string \<times> world" where
  "Date_now_toString e w = (Date_now e (moment w), emit ClockRead w)"

text \<open>
  The answer of the client: \<open>{data, error: null}\<close>, \<open>{data: null, error}\<close>, or a rejected
  promise.
\<close>

datatype reply = Data jsval | Failed pg_error | Threw js_exn

text \<open>
  The relation \<open>users\<close> of the migration (line 19 to 23): \<open>id uuid PRIMARY KEY DEFAULT
  gen_random_uuid()\<close>, \<open>line_username text UNIQUE NOT NULL\<close>, \<open>created_at timestamptz
  DEFAULT now()\<close>. \<open>.single()\<close> answers with the row when exactly one row matches and with
  the error of code PGRST116 otherwise; an insert of a name already there violates the
  UNIQUE constraint (code 23505).
\<close>

definition named :: "string \<Rightarrow> row \<Rightarrow> bool" where
  "named n r = (map_of r ''line_username'' = Some (JString n))"

definition single :: "row list \<Rightarrow> (row \<Rightarrow> jsval) \<Rightarrow> reply" where
  "single rs f =
     (case rs of
        [r] \<Rightarrow> Data (f r)
      | _ \<Rightarrow> Failed (PgError ''PGRST116'' ''JSON object requested, multiple (or no) rows returned''))"

definition serve :: "env \<Rightarrow> request \<Rightarrow> world \<Rightarrow> reply \<times> world" where
  "serve e rq w =
     (case rq of
        SelectUser n \<Rightarrow> (single (filter (named n) (users w)) JObject, w)
      | SelectUserId n \<Rightarrow>
          (single (filter (named n) (users w)) (\<lambda>r. JObject [(''id'', field (JObject r) ''id'')]), w)
      | InsertUser n \<Rightarrow>
          (if filter (named n) (users w) \<noteq> []
           then (Failed (PgError ''23505'' ''duplicate key value violates unique constraint''), w)
           else
             let r = [(''id'', JString (gen_random_uuid e (moment w))),
                      (''line_username'', JString n),
                      (''created_at'', JString (toISOString e (moment w)))]
             in (Data (JObject r), w\<lparr>users := users w @ [r]\<rparr>))
      | UpsertDiaries rows \<Rightarrow>
          (case diary_verdict e (moment w) rows of
             None \<Rightarrow> (Data JNull, w)
           | Some err \<Rightarrow> (Failed err, w)))"

text \<open>One request: lost on its way or served; logged in both cases.\<close>

definition send :: "env \<Rightarrow> request \<Rightarrow> world \<Rightarrow> reply \<times> world" where
  "send e rq w =
     (case fault e (moment w) of
        Some (Reject s) \<Rightarrow> (Threw (Rejected s), emit (Request rq) w)
      | Some (Refuse err) \<Rightarrow> (Failed err, emit (Request rq) w)
      | None \<Rightarrow> (case serve e rq w of (r, w1) \<Rightarrow> (r, emit (Request rq) w1)))"

section \<open>\<open>lib/supabase.ts\<close>: userService\<close>

definition local_user_id :: string where
  "local_user_id = ''local-user-id''"

text \<open>
  \<open>createOrGetUser\<close> (lines 17 to 59). The result is the user object or \<open>JNull\<close>.
\<close>

definition insert_user :: "env \<Rightarrow> string \<Rightarrow> world \<Rightarrow> jsval \<times> world" where
  "insert_user e lineUsername w =
     (case send e (InsertUser lineUsername) w of
        (Threw x, w1) \<Rightarrow> (JNull, w1)
      | (Failed createError, w1) \<Rightarrow> (JNull, w1)
      | (Data newUser, w1) \<Rightarrow> (newUser, w1))"

definition createOrGetUser :: "env \<Rightarrow> string \<Rightarrow> world \<Rightarrow> jsval \<times> world" where
  "createOrGetUser e lineUsername w =
     (if \<not> supabase e then (JNull, w)
      else if isLocalMode e
      then (JObject [(''id'', JString local_user_id), (''line_username'', JString lineUsername)], w)
      else
        case send e (SelectUser lineUsername) w of
          (Threw x, w1) \<Rightarrow> (JNull, w1)
        | (Failed searchError, w1) \<Rightarrow>
            if code searchError \<noteq> ''PGRST116'' then (JNull, w1)
            else insert_user e lineUsername w1
        | (Data existingUser, w1) \<Rightarrow>
            if truthy existingUser then (existingUser, w1)
            else insert_user e lineUsername w1)"

text \<open>\<open>getUserId\<close> (lines 62 to 86). The result is the identifier or \<open>JNull\<close>.\<close>

definition getUserId :: "env \<Rightarrow> string \<Rightarrow> world \<Rightarrow> jsval \<times> world" where
  "getUserId e lineUsername w =
     (if \<not> supabase e then (JNull, w)
      else if isLocalMode e then (JString local_user_id, w)
      else
        case send e (SelectUserId lineUsername) w of
          (Threw x, w1) \<Rightarrow> (JNull, w1)
        | (Failed err, w1) \<Rightarrow> (JNull, w1)
        | (Data d, w1) \<Rightarrow> (js_or (opt_chain d ''id'') JNull, w1))"

section \<open>\<open>lib/supabase.ts\<close>: diaryService.syncDiaries\<close>

text \<open>
  The texts of the results are kept by the place that builds them: line 93, line 96,
  line 196 (with \<open>error.message\<close>), line 203 and line 207 (with the exception caught).
  \<open>data\<close> is absent, or what the client answered, or the text of line 192 with its two
  numbers \<open>successCount\<close> and \<open>formattedDiaries.length\<close>. Console output is left out.
\<close>

datatype message =
    NoSupabaseConnection
  | LocalModeOrInvalidUserId
  | SyncError string
  | SyncThrew js_exn
  | SyncServiceError js_exn

datatype sync_data = Rows jsval | SyncedCount nat nat

record sync_result =
  success :: bool
  error :: "message option"
  data :: "sync_data option"

text \<open>
  \<open>Array.prototype.map\<close> with a callback that may raise and may read the clock: the
  elements in order, stopping at the first exception.
\<close>

fun map_js :: "('a \<Rightarrow> world \<Rightarrow> (js_exn + 'b) \<times> world) \<Rightarrow> 'a list \<Rightarrow> world
    \<Rightarrow> (js_exn + 'b list) \<times> world" where
  "map_js f [] w = (Inr [], w)"
| "map_js f (x # xs) w =
     (case f x w of
        (Inl ex, w1) \<Rightarrow> (Inl ex, w1)
      | (Inr y, w1) \<Rightarrow>
          (case map_js f xs w1 of
             (Inl ex, w2) \<Rightarrow> (Inl ex, w2)
           | (Inr ys, w2) \<Rightarrow> (Inr (y # ys), w2)))"

text \<open>The callback of lines 101 to 144.\<close>

definition formatDiary :: "env \<Rightarrow> jsval \<Rightarrow> jsval \<Rightarrow> world \<Rightarrow> (js_exn + jsval) \<times> world" where
  "formatDiary e userId diary w =
     (if nullish diary then (Inl TypeError, w)
      else
        let selfEsteemScore = field diary ''self_esteem_score'';
            worthlessnessScore = field diary ''worthlessness_score'';
            selfEsteemScore =
              (if selfEsteemScore = JUndefined \<and> field diary ''selfEsteemScore'' \<noteq> JUndefined
               then field diary ''selfEsteemScore'' else selfEsteemScore);
            worthlessnessScore =
              (if worthlessnessScore = JUndefined \<and> field diary ''worthlessnessScore'' \<noteq> JUndefined
               then field diary ''worthlessnessScore'' else worthlessnessScore);
            selfEsteemScore =
              (if selfEsteemScore = JUndefined \<or> selfEsteemScore = JNull
               then JNumber (Fin 50) else selfEsteemScore);
            worthlessnessScore =
              (if worthlessnessScore = JUndefined \<or> worthlessnessScore = JNull
               then JNumber (Fin 50) else worthlessnessScore);
            (id, w1) =
              (if truthy (field diary ''id'') then (field diary ''id'', w)
               else case Date_now_toString e w of (s, w') \<Rightarrow> (JString s, w'));
            (created_at, w2) =
              (if truthy (field diary ''created_at'') then (field diary ''created_at'', w1)
               else case new_Date_toISOString e w1 of (s, w') \<Rightarrow> (JString s, w'))
        in (Inr (JObject
             [(''id'', id),
              (''user_id'', userId),
              (''date'', field diary ''date''),
              (''emotion'', field diary ''emotion''),
              (''event'', field diary ''event''),
              (''realization'', field diary ''realization''),
              (''self_esteem_score'', selfEsteemScore),
              (''worthlessness_score'', worthlessnessScore),
              (''created_at'', created_at),
              (''counselor_memo'', js_or (field diary ''counselor_memo'') JNull),
              (''is_visible_to_user'', js_or (field diary ''is_visible_to_user'') (JBool False)),
              (''counselor_name'', js_or (field diary ''counselor_name'') JNull),
              (''assigned_counselor'', js_or (field diary ''assigned_counselor'') JNull),
              (''urgency_level'', js_or (field diary ''urgency_level'') JNull)]), w2))"

text \<open>
  The loop of lines 169 to 186: one upsert for each record, in order; a record whose
  upsert answers with an error or raises is passed over.
\<close>

fun upsert_each :: "env \<Rightarrow> jsval list \<Rightarrow> nat \<Rightarrow> world \<Rightarrow> nat \<times> world" where
  "upsert_each e [] successCount w = (successCount, w)"
| "upsert_each e (diary # rest) successCount w =
     (case send e (UpsertDiaries [diary]) w of
        (Data d, w1) \<Rightarrow> upsert_each e rest (successCount + 1) w1
      | (Failed singleError, w1) \<Rightarrow> upsert_each e rest successCount w1
      | (Threw singleSyncError, w1) \<Rightarrow> upsert_each e rest successCount w1)"

text \<open>\<open>syncDiaries\<close> (lines 92 to 209).\<close>

definition syncDiaries :: "env \<Rightarrow> jsval \<Rightarrow> jsval list \<Rightarrow> world \<Rightarrow> sync_result \<times> world" where
  "syncDiaries e userId diaries w =
     (if \<not> supabase e
      then (\<lparr>success = False, error = Some NoSupabaseConnection, data = None\<rparr>, w)
      else if isLocalMode e \<or> \<not> truthy userId \<or> userId = JString local_user_id
      then (\<lparr>success = False, error = Some LocalModeOrInvalidUserId, data = None\<rparr>, w)
      else
        case map_js (formatDiary e userId) diaries w of
          (Inl ex, w1) \<Rightarrow>
            (\<lparr>success = False, error = Some (SyncServiceError ex), data = Some (Rows JNull)\<rparr>, w1)
        | (Inr formattedDiaries, w1) \<Rightarrow>
            (case send e (UpsertDiaries formattedDiaries) w1 of
               (Threw syncError, w2) \<Rightarrow>
                 (\<lparr>success = False, error = Some (SyncThrew syncError), data = None\<rparr>, w2)
             | (Data d, w2) \<Rightarrow>
                 (\<lparr>success = True, error = None, data = Some (Rows d)\<rparr>, w2)
             | (Failed err, w2) \<Rightarrow>
                 (case upsert_each e formattedDiaries 0 w2 of
                    (successCount, w3) \<Rightarrow>
                      if successCount > 0
                      then (\<lparr>success = True, error = None,
                             data = Some (SyncedCount successCount (length formattedDiaries))\<rparr>, w3)
                      else (\<lparr>success = False, error = Some (SyncError (message err)),
                             data = None\<rparr>, w3))))"

section \<open>The hook \<open>useAutoSync\<close>\<close>

text \<open>
  The development holds two revisions of the hook: \<open>src/hooks/useAutoSync.ts\<close> and the
  later one, the unnamed source \<open>part_000\<close>. Both keep the same state; \<open>syncData\<close> of
  the later revision also looks the user name up in \<open>localStorage\<close> and reconciles the two
  spellings of the scores.

  The state of the hook is what a call reads and sets: \<open>setIsSyncing\<close>, \<open>setError\<close>,
  \<open>setLastSyncTime\<close> and \<open>setCurrentUser\<close> are updates of the record, applied at once.

  The text of the hook's error is the message of the exception caught: the text of the
  sync result, the text of line 223 (\<open>DiarySyncFailed\<close>), the engine's own message, or the
  text of line 235 (\<open>UnknownError\<close>) for a value that is no \<open>Error\<close>.
\<close>

datatype hook_message = FromSync message | DiarySyncFailed | EngineMessage js_exn | UnknownError

datatype thrown = Engine js_exn | Error hook_message

record AutoSyncState =
  isAutoSyncEnabled :: bool
  isSyncing :: bool
  lastSyncTime :: "string option"
  hook_error :: "hook_message option"
  currentUser :: jsval

text \<open>\<open>error instanceof Error ? error.message : ...\<close> (line 235).\<close>

fun caught_message :: "thrown \<Rightarrow> hook_message" where
  "caught_message (Error m) = m"
| "caught_message (Engine (Rejected s)) = UnknownError"
| "caught_message (Engine ex) = EngineMessage ex"

text \<open>The callback of \<open>entries.map\<close> in \<open>part_000\<close>, lines 170 to 214.\<close>

definition normalizeEntry :: "env \<Rightarrow> jsval \<Rightarrow> world \<Rightarrow> (js_exn + jsval) \<times> world" where
  "normalizeEntry e entry w =
     (if nullish entry then (Inl TypeError, w)
      else
        let selfEsteemScore = field entry ''self_esteem_score'';
            worthlessnessScore = field entry ''worthlessness_score'';
            selfEsteemScore =
              (if selfEsteemScore = JUndefined \<and> field entry ''selfEsteemScore'' \<noteq> JUndefined
               then field entry ''selfEsteemScore'' else selfEsteemScore);
            worthlessnessScore =
              (if worthlessnessScore = JUndefined \<and> field entry ''worthlessnessScore'' \<noteq> JUndefined
               then field entry ''worthlessnessScore'' else worthlessnessScore);
            selfEsteemScore =
              (if selfEsteemScore = JUndefined \<or> selfEsteemScore = JNull
               then JNumber (Fin 50) else selfEsteemScore);
            worthlessnessScore =
              (if worthlessnessScore = JUndefined \<or> worthlessnessScore = JNull
               then JNumber (Fin 50) else worthlessnessScore);
            (created_at, w1) =
              (if truthy (field entry ''created_at'') then (field entry ''created_at'', w)
               else case new_Date_toISOString e w of (s, w') \<Rightarrow> (JString s, w'))
        in (Inr (JObject
             [(''id'', field entry ''id''),
              (''date'', field entry ''date''),
              (''emotion'', field entry ''emotion''),
              (''event'', field entry ''event''),
              (''realization'', field entry ''realization''),
              (''self_esteem_score'', JNumber (Number e selfEsteemScore)),
              (''worthlessness_score'', JNumber (Number e worthlessnessScore)),
              (''selfEsteemScore'', JNumber (Number e selfEsteemScore)),
              (''worthlessnessScore'', JNumber (Number e worthlessnessScore)),
              (''created_at'', created_at),
              (''counselor_memo'', js_or (field entry ''counselor_memo'') JNull),
              (''is_visible_to_user'', js_or (field entry ''is_visible_to_user'') (JBool False)),
              (''counselor_name'', js_or (field entry ''counselor_name'') JNull),
              (''assigned_counselor'', js_or (field entry ''assigned_counselor'') JNull),
              (''urgency_level'', js_or (field entry ''urgency_level'') JNull)]), w1))"

text \<open>The callback of \<open>entries.map\<close> in \<open>src/hooks/useAutoSync.ts\<close>, lines 161 to 178.\<close>

definition normalizeEntry_useAutoSync :: "env \<Rightarrow> jsval \<Rightarrow> world \<Rightarrow> (js_exn + jsval) \<times> world" where
  "normalizeEntry_useAutoSync e entry w =
     (if nullish entry then (Inl TypeError, w)
      else
        let (created_at, w1) =
              (if truthy (field entry ''created_at'') then (field entry ''created_at'', w)
               else case new_Date_toISOString e w of (s, w') \<Rightarrow> (JString s, w'))
        in (Inr (JObject
             [(''id'', field entry ''id''),
              (''date'', field entry ''date''),
              (''emotion'', field entry ''emotion''),
              (''event'', field entry ''event''),
              (''realization'', field entry ''realization''),
              (''self_esteem_score'', js_or (field entry ''selfEsteemScore'') (JNumber (Fin 50))),
              (''worthlessness_score'', js_or (field entry ''worthlessnessScore'') (JNumber (Fin 50))),
              (''created_at'', created_at),
              (''counselor_memo'', js_or (field entry ''counselor_memo'') JNull),
              (''is_visible_to_user'', js_or (field entry ''is_visible_to_user'') (JBool False)),
              (''counselor_name'', js_or (field entry ''counselor_name'') JNull),
              (''assigned_counselor'', js_or (field entry ''assigned_counselor'') JNull),
              (''urgency_level'', js_or (field entry ''urgency_level'') JNull)]), w1))"

text \<open>
  The second half of the \<open>try\<close> block, from the read of \<open>journalEntries\<close> to the end
  (\<open>part_000\<close> lines 158 to 232, \<open>useAutoSync.ts\<close> lines 149 to 194). The two revisions
  differ in the callback of \<open>entries.map\<close> only, which is the first argument.
  \<open>entries.map\<close> on a parsed value that is no array raises TypeError. \<open>noEntries\<close> is
  the branch of \<open>!savedEntries\<close>: the key is absent or holds the empty string.
\<close>

definition noEntries :: "env \<Rightarrow> AutoSyncState \<Rightarrow> world \<Rightarrow> (thrown + bool) \<times> AutoSyncState \<times> world" where
  "noEntries e st w =
     (case new_Date_toISOString e w of
        (t1, w1) \<Rightarrow>
          (case new_Date_toISOString e w1 of
             (t2, w2) \<Rightarrow> (Inr True, st\<lparr>lastSyncTime := Some t1\<rparr>, setItem ''last_sync_time'' t2 w2)))"

definition syncEntries ::
    "(env \<Rightarrow> jsval \<Rightarrow> world \<Rightarrow> (js_exn + jsval) \<times> world) \<Rightarrow> env \<Rightarrow> AutoSyncState \<Rightarrow> jsval \<Rightarrow> world
     \<Rightarrow> (thrown + bool) \<times> AutoSyncState \<times> world" where
  "syncEntries callback e st userId w =
     (case getItem ''journalEntries'' w of
        (None, w1) \<Rightarrow> noEntries e st w1
      | (Some savedEntries, w1) \<Rightarrow>
          if savedEntries = [] then noEntries e st w1
          else
            (case JSON_parse e savedEntries of
               None \<Rightarrow> (Inl (Engine SyntaxError), st, w1)
             | Some (JArray parsed) \<Rightarrow>
                 (case map_js (callback e) parsed w1 of
                    (Inl ex, w2) \<Rightarrow> (Inl (Engine ex), st, w2)
                  | (Inr entries, w2) \<Rightarrow>
                      (case syncDiaries e userId entries w2 of
                         (result, w3) \<Rightarrow>
                           if \<not> success result
                           then (Inl (Error (case error result of
                                               Some m \<Rightarrow> FromSync m
                                             | None \<Rightarrow> DiarySyncFailed)), st, w3)
                           else
                             (case new_Date_toISOString e w3 of
                                (now, w4) \<Rightarrow>
                                  (Inr True, st\<lparr>lastSyncTime := Some now\<rparr>,
                                   setItem ''last_sync_time'' now w4))))
             | Some other \<Rightarrow> (Inl (Engine TypeError), st, w1)))"

text \<open>
  The first half of the \<open>try\<close> block. First the user name: in \<open>part_000\<close> (lines 122
  to 125) that of the signed-in user or, when there is none, the key \<open>line-username\<close>; in
  \<open>useAutoSync.ts\<close> (lines 118 and 119) that of the signed-in user.
\<close>

definition userName :: "env \<Rightarrow> world \<Rightarrow> string option \<times> world" where
  "userName e w =
     (let user = getCurrentUser e (moment w);
          w1 = emit GetCurrentUser w
      in case user of
           None \<Rightarrow> getItem ''line-username'' w1
         | Some u \<Rightarrow>
             if user_lineUsername u \<noteq> [] then (Some (user_lineUsername u), w1)
             else getItem ''line-username'' w1)"

definition userName_useAutoSync :: "env \<Rightarrow> world \<Rightarrow> string option \<times> world" where
  "userName_useAutoSync e w =
     (let user = getCurrentUser e (moment w);
          w1 = emit GetCurrentUser w
      in case user of
           None \<Rightarrow> (None, w1)
         | Some u \<Rightarrow> (Some (user_lineUsername u), w1))"

text \<open>
  Then the user identifier (\<open>part_000\<close> lines 127 to 156, \<open>useAutoSync.ts\<close> lines 119 to
  147), created remotely when the state holds none. The result is the identifier, or
  nothing where the source returns \<open>false\<close>.
\<close>

definition resolveUser ::
    "env \<Rightarrow> AutoSyncState \<Rightarrow> string option \<Rightarrow> world \<Rightarrow> jsval option \<times> AutoSyncState \<times> world" where
  "resolveUser e st lineUsername w =
     (let noName =
            (if isLocalMode e then (Some (JString local_user_id), st, w)
             else (None, st, w))
      in
      case lineUsername of
        None \<Rightarrow> noName
      | Some name \<Rightarrow>
          if name = [] then noName
          else
            let userId = js_or (opt_chain (currentUser st) ''id'') (JString local_user_id) in
            if \<not> truthy userId \<or> userId = JString local_user_id
            then
              if isLocalMode e then (Some (JString local_user_id), st, w)
              else
                (case createOrGetUser e name w of
                   (supabaseUser, w1) \<Rightarrow>
                     if \<not> truthy supabaseUser \<or> \<not> truthy (field supabaseUser ''id'')
                     then (None, st, w1)
                     else (Some (field supabaseUser ''id''), st\<lparr>currentUser := supabaseUser\<rparr>, w1))
            else (Some userId, st, w))"

text \<open>The \<open>try\<close> block: the name, the identifier, the entries.\<close>

definition tryBlock ::
    "(env \<Rightarrow> world \<Rightarrow> string option \<times> world)
     \<Rightarrow> (env \<Rightarrow> jsval \<Rightarrow> world \<Rightarrow> (js_exn + jsval) \<times> world)
     \<Rightarrow> env \<Rightarrow> AutoSyncState \<Rightarrow> world \<Rightarrow> (thrown + bool) \<times> AutoSyncState \<times> world" where
  "tryBlock name callback e st w =
     (case name e w of
        (lineUsername, w1) \<Rightarrow>
          (case resolveUser e st lineUsername w1 of
             (None, st1, w2) \<Rightarrow> (Inr False, st1, w2)
           | (Some userId, st1, w2) \<Rightarrow> syncEntries callback e st1 userId w2))"

definition syncData_try :: "env \<Rightarrow> AutoSyncState \<Rightarrow> world \<Rightarrow> (thrown + bool) \<times> AutoSyncState \<times> world" where
  "syncData_try = tryBlock userName normalizeEntry"

definition syncData_try_useAutoSync ::
    "env \<Rightarrow> AutoSyncState \<Rightarrow> world \<Rightarrow> (thrown + bool) \<times> AutoSyncState \<times> world" where
  "syncData_try_useAutoSync = tryBlock userName_useAutoSync normalizeEntry_useAutoSync"

text \<open>
  \<open>syncData\<close>: the three guards, the flag, the \<open>try\<close> block, \<open>catch\<close> and \<open>finally\<close>
  (\<open>part_000\<close> lines 100 to 240, \<open>useAutoSync.ts\<close> lines 96 to 202). The first argument is
  the \<open>try\<close> block; \<open>settle\<close> is what \<open>catch\<close> and \<open>finally\<close> make of its outcome.
\<close>

definition settle :: "(thrown + bool) \<times> AutoSyncState \<times> world \<Rightarrow> bool \<times> AutoSyncState \<times> world" where
  "settle outcome =
     (case outcome of
        (Inr returned, st, w) \<Rightarrow> (returned, st\<lparr>isSyncing := False\<rparr>, w)
      | (Inl ex, st, w) \<Rightarrow>
          (False, st\<lparr>hook_error := Some (caught_message ex), isSyncing := False\<rparr>, w))"

definition guarded ::
    "(env \<Rightarrow> AutoSyncState \<Rightarrow> world \<Rightarrow> (thrown + bool) \<times> AutoSyncState \<times> world)
     \<Rightarrow> env \<Rightarrow> AutoSyncState \<Rightarrow> world \<Rightarrow> bool \<times> AutoSyncState \<times> world" where
  "guarded try_block e st w =
     (if \<not> supabase e then (False, st, w)
      else if isLocalMode e then (False, st, w)
      else if isSyncing st then (False, st, w)
      else settle (try_block e (st\<lparr>isSyncing := True, hook_error := None\<rparr>) w))"

definition syncData :: "env \<Rightarrow> AutoSyncState \<Rightarrow> world \<Rightarrow> bool \<times> AutoSyncState \<times> world" where
  "syncData = guarded syncData_try"

definition syncData_useAutoSync :: "env \<Rightarrow> AutoSyncState \<Rightarrow> world \<Rightarrow> bool \<times> AutoSyncState \<times> world" where
  "syncData_useAutoSync = guarded syncData_try_useAutoSync"

text \<open>\<open>triggerManualSync\<close> awaits \<open>syncData\<close> and returns its result.\<close>

definition triggerManualSync :: "env \<Rightarrow> AutoSyncState \<Rightarrow> world \<Rightarrow> bool \<times> AutoSyncState \<times> world" where
  "triggerManualSync = syncData"

definition triggerManualSync_useAutoSync ::
    "env \<Rightarrow> AutoSyncState \<Rightarrow> world \<Rightarrow> bool \<times> AutoSyncState \<times> world" where
  "triggerManualSync_useAutoSync = syncData_useAutoSync"

section \<open>The hook \<open>useAutoSync\<close>: a call through the function of an earlier render\<close>

text \<open>
  \<open>syncData\<close> is made by \<open>useCallback\<close> with the dependencies \<open>[isSyncing, currentUser]\<close>
  (\<open>part_000\<close> line 240, \<open>useAutoSync.ts\<close> line 202): every render whose \<open>isSyncing\<close> or
  \<open>currentUser\<close> has changed makes a new function, which reads the \<open>isSyncing\<close> and the
  \<open>currentUser\<close> of that render, while the setters update the state of the hook, which
  the functions of later renders read. \<open>syncData e st w\<close> above is the call through the
  function of the render of the state \<open>st\<close> the hook is in. A timer or a listener set by
  an earlier render (\<open>part_000\<close> lines 49 to 54, 252, 265 to 273, 278 to 283) holds the
  function of that render: \<open>syncData_closure e captured st w\<close> is the call through the
  function of a render of the state \<open>captured\<close>, made when the hook is in the state \<open>st\<close>.
  The reads of \<open>isSyncing\<close> (the guard) and of \<open>currentUser\<close> (line 137) are the only reads
  of the state in \<open>syncData\<close>.
\<close>

definition resolveUser_closure ::
    "env \<Rightarrow> AutoSyncState \<Rightarrow> AutoSyncState \<Rightarrow> string option \<Rightarrow> world
     \<Rightarrow> jsval option \<times> AutoSyncState \<times> world" where
  "resolveUser_closure e captured st lineUsername w =
     (let noName =
            (if isLocalMode e then (Some (JString local_user_id), st, w)
             else (None, st, w))
      in
      case lineUsername of
        None \<Rightarrow> noName
      | Some name \<Rightarrow>
          if name = [] then noName
          else
            let userId = js_or (opt_chain (currentUser captured) ''id'') (JString local_user_id) in
            if \<not> truthy userId \<or> userId = JString local_user_id
            then
              if isLocalMode e then (Some (JString local_user_id), st, w)
              else
                (case createOrGetUser e name w of
                   (supabaseUser, w1) \<Rightarrow>
                     if \<not> truthy supabaseUser \<or> \<not> truthy (field supabaseUser ''id'')
                     then (None, st, w1)
                     else (Some (field supabaseUser ''id''), st\<lparr>currentUser := supabaseUser\<rparr>, w1))
            else (Some userId, st, w))"

definition tryBlock_closure ::
    "(env \<Rightarrow> world \<Rightarrow> string option \<times> world)
     \<Rightarrow> (env \<Rightarrow> jsval \<Rightarrow> world \<Rightarrow> (js_exn + jsval) \<times> world)
     \<Rightarrow> env \<Rightarrow> AutoSyncState \<Rightarrow> AutoSyncState \<Rightarrow> world
     \<Rightarrow> (thrown + bool) \<times> AutoSyncState \<times> world" where
  "tryBlock_closure name callback e captured st w =
     (case name e w of
        (lineUsername, w1) \<Rightarrow>
          (case resolveUser_closure e captured st lineUsername w1 of
             (None, st1, w2) \<Rightarrow> (Inr False, st1, w2)
           | (Some userId, st1, w2) \<Rightarrow> syncEntries callback e st1 userId w2))"

definition guarded_closure ::
    "(env \<Rightarrow> AutoSyncState \<Rightarrow> AutoSyncState \<Rightarrow> world \<Rightarrow> (thrown + bool) \<times> AutoSyncState \<times> world)
     \<Rightarrow> env \<Rightarrow> AutoSyncState \<Rightarrow> AutoSyncState \<Rightarrow> world \<Rightarrow> bool \<times> AutoSyncState \<times> world" where
  "guarded_closure try_block e captured st w =
     (if \<not> supabase e then (False, st, w)
      else if isLocalMode e then (False, st, w)
      else if isSyncing captured then (False, st, w)
      else settle (try_block e captured (st\<lparr>isSyncing := True, hook_error := None\<rparr>) w))"

definition syncData_closure ::
    "env \<Rightarrow> AutoSyncState \<Rightarrow> AutoSyncState \<Rightarrow> world \<Rightarrow> bool \<times> AutoSyncState \<times> world" where
  "syncData_closure = guarded_closure (tryBlock_closure userName normalizeEntry)"

definition syncData_closure_useAutoSync ::
    "env \<Rightarrow> AutoSyncState \<Rightarrow> AutoSyncState \<Rightarrow> world \<Rightarrow> bool \<times> AutoSyncState \<times> world" where
  "syncData_closure_useAutoSync =
     guarded_closure (tryBlock_closure userName_useAutoSync normalizeEntry_useAutoSync)"

section \<open>\<open>components/AdminBackupRestore.tsx\<close>: restore from a backup\<close>

text \<open>
  The state of the component. The texts of \<open>status\<close> are kept by the place that sets
  them: line 171, line 261, line 273, line 282. The file selected is what reading it
  gives: \<open>onerror\<close>, or \<open>onload\<close> with \<open>event.target.result\<close>. Creating the reader and
  starting to read a selected file do not raise, so the \<open>catch\<close> of line 290 has no
  case. \<open>localStorage\<close> is taken to accept every write.
\<close>

datatype status_text = SelectBackupFile | RestoreCompleted | RestoreFailed | FileReadFailed

datatype status = Status status_text bool

datatype backup_file = Unreadable | Readable jsval

record AdminBackupRestoreState =
  backupInProgress :: bool
  restoreInProgress :: bool
  status :: "status option"
  backupFile :: "backup_file option"

text \<open>Lines 204 to 211: the values of the keys to keep, where they are truthy.\<close>

definition keysToPreserve :: "string list" where
  "keysToPreserve = [''current_counselor'']"

fun collectPreserved :: "string list \<Rightarrow> world \<Rightarrow> (string \<times> string) list \<times> world" where
  "collectPreserved [] w = ([], w)"
| "collectPreserved (key # keys) w =
     (case getItem key w of
        (stored, w1) \<Rightarrow>
          (case collectPreserved keys w1 of
             (rest, w2) \<Rightarrow>
               ((case stored of
                   None \<Rightarrow> rest
                 | Some v \<Rightarrow> if v = [] then rest else (key, v) # rest), w2)))"

fun setItems :: "(string \<times> string) list \<Rightarrow> world \<Rightarrow> world" where
  "setItems [] w = w"
| "setItems ((key, v) # rest) w = setItems rest (setItem key v w)"

text \<open>Lines 224 to 228: a string is written as it is, any other value as JSON.\<close>

definition serialize :: "env \<Rightarrow> jsval \<Rightarrow> string" where
  "serialize e v = (case v of JString s \<Rightarrow> s | _ \<Rightarrow> JSON_stringify e v)"

definition Object_entries :: "env \<Rightarrow> jsval \<Rightarrow> (string \<times> jsval) list" where
  "Object_entries e v = (case v of JObject kvs \<Rightarrow> kvs | _ \<Rightarrow> Object_entries_other e v)"

text \<open>Lines 203 to 232.\<close>

definition restoreLocalStorage :: "env \<Rightarrow> jsval \<Rightarrow> world \<Rightarrow> world" where
  "restoreLocalStorage e saved w =
     (case collectPreserved keysToPreserve w of
        (preservedData, w1) \<Rightarrow>
          setItems (map (\<lambda>(key, v). (key, serialize e v)) (Object_entries e saved))
            (setItems preservedData (clear w1)))"

text \<open>
  \<open>fileReader.onload\<close> (lines 188 to 278). The restore of the remote data (lines 236 to
  258) writes to the console only.
\<close>

definition onload :: "env \<Rightarrow> jsval \<Rightarrow> AdminBackupRestoreState \<Rightarrow> world \<Rightarrow> AdminBackupRestoreState \<times> world" where
  "onload e result ui w =
     (let failed = (ui\<lparr>status := Some (Status RestoreFailed False), restoreInProgress := False\<rparr>, w)
      in
      case result of
        JString content \<Rightarrow>
          (case JSON_parse e content of
             None \<Rightarrow> failed
           | Some backupData \<Rightarrow>
               if nullish backupData then failed
               else if \<not> truthy (field backupData ''metadata'')
                     \<or> \<not> truthy (field (field backupData ''metadata'') ''version'')
               then failed
               else
                 let w1 = (if truthy (field backupData ''localStorage'')
                           then restoreLocalStorage e (field backupData ''localStorage'') w
                           else w)
                 in (ui\<lparr>status := Some (Status RestoreCompleted True)\<rparr>, emit ReloadScheduled w1))
      | _ \<Rightarrow> failed)"

text \<open>\<open>handleRestoreFromBackup\<close> (lines 168 to 298).\<close>

definition handleRestoreFromBackup ::
    "env \<Rightarrow> AdminBackupRestoreState \<Rightarrow> world \<Rightarrow> AdminBackupRestoreState \<times> world" where
  "handleRestoreFromBackup e ui w =
     (case backupFile ui of
        None \<Rightarrow> (ui\<lparr>status := Some (Status SelectBackupFile False)\<rparr>, w)
      | Some file \<Rightarrow>
          if \<not> window_confirm e (moment w) then (ui, w)
          else
            let ui1 = ui\<lparr>restoreInProgress := True, status := None\<rparr> in
            case file of
              Unreadable \<Rightarrow>
                (ui1\<lparr>status := Some (Status FileReadFailed False), restoreInProgress := False\<rparr>, w)
            | Readable result \<Rightarrow> onload e result ui1 w)"

section \<open>What the backend answers to an upsert\<close>



section \<open>The score as the specification words it\<close>


section \<open>Sample environments and states\<close>

text \<open>
  The inputs of the examples. \<open>quiet_env\<close> is a configured backend that loses no request
  and accepts every diary upsert; its built-ins are tables that agree with the engine on
  the values the examples use: \<open>JSON.parse\<close> of \<open>[]\<close>, of \<open>{}\<close>, of a text that is no
  JSON, of one diary record with a legacy score, and of three backup documents;
  \<open>JSON.stringify\<close> of \<open>[]\<close> and of \<open>7\<close>; \<open>Number\<close> of the strings \<open>70\<close> and \<open>abc\<close>.
\<close>

definition legacy_record :: jsval where
  "legacy_record = JObject [(''id'', JString ''d1''), (''selfEsteemScore'', JNumber (Fin 70))]"



definition backup_without_version :: jsval where
  "backup_without_version =
     JObject [(''metadata'', JObject []), (''localStorage'', JObject [(''journalEntries'', JArray [])])]"

definition backup_document :: jsval where
  "backup_document =
     JObject [(''metadata'', JObject [(''version'', JString ''1.0'')]),
              (''localStorage'',
               JObject [(''journalEntries'', JArray []), (''auto_sync_enabled'', JString ''true''),
                        (''visits'', JNumber (Fin 7))])]"

definition backup_without_section :: jsval where
  "backup_without_section = JObject [(''metadata'', JObject [(''version'', JString ''1.0'')])]"

definition backup_text :: string where
  "backup_text = ''{\"metadata\":{\"version\":\"1.0\"},\"localStorage\":{\"journalEntries\":[],\"auto_sync_enabled\":\"true\",\"visits\":7}}''"

definition backup_text_without_version :: string where
  "backup_text_without_version = ''{\"metadata\":{},\"localStorage\":{\"journalEntries\":[]}}''"

definition backup_text_without_section :: string where
  "backup_text_without_section = ''{\"metadata\":{\"version\":\"1.0\"}}''"

definition sample_parse :: "string \<Rightarrow> jsval option" where
  "sample_parse s =
     (if s = ''[]'' then Some (JArray [])
      else if s = ''{}'' then Some (JObject [])
      else if s = ''[{\"id\":\"d1\",\"selfEsteemScore\":70}]'' then Some (JArray [legacy_record])
      else if s = backup_text_without_version then Some backup_without_version
      else if s = backup_text then Some backup_document
      else if s = backup_text_without_section then Some backup_without_section
      else None)"

definition sample_stringify :: "jsval \<Rightarrow> string" where
  "sample_stringify v = (if v = JArray [] then ''[]'' else if v = JNumber (Fin 7) then ''7'' else ''null'')"

definition quiet_env :: env where
  "quiet_env =
     \<lparr>VITE_LOCAL_MODE = None,
      VITE_SUPABASE_URL = Some ''https://project.supabase.co'',
      VITE_SUPABASE_ANON_KEY = Some ''anon-key'',
      getCurrentUser = (\<lambda>n. Some (DeviceUser ''alice'')),
      JSON_parse = sample_parse,
      JSON_stringify = sample_stringify,
      StringToNumber = (\<lambda>s. if s = ''70'' then Fin 70 else NaN),
      ObjectToNumber = (\<lambda>v. NaN),
      Object_entries_other = (\<lambda>v. []),
      toISOString = (\<lambda>n. ''2025-06-29T14:37:11.000Z''),
      Date_now = (\<lambda>n. ''1751207831000''),
      fault = (\<lambda>n. None),
      gen_random_uuid = (\<lambda>n. ''5f0c8a52-0000-4000-8000-000000000001''),
      diary_verdict = (\<lambda>n rows. None),
      window_confirm = (\<lambda>n. True)\<rparr>"

text \<open>No endpoint and no credential; local-only mode is not set.\<close>

definition unconfigured_env :: env where
  "unconfigured_env = quiet_env\<lparr>VITE_SUPABASE_URL := None, VITE_SUPABASE_ANON_KEY := None\<rparr>"

text \<open>The backend answers every request with an error that is not PGRST116.\<close>

definition refusing_env :: env where
  "refusing_env = quiet_env\<lparr>fault := (\<lambda>n. Some (Refuse (PgError ''42501'' ''permission denied'')))\<rparr>"

text \<open>Every request is lost on its way: the promise of the client is rejected.\<close>

definition unreachable_env :: env where
  "unreachable_env = quiet_env\<lparr>fault := (\<lambda>n. Some (Reject ''TypeError: Failed to fetch''))\<rparr>"

text \<open>Local-only mode, with the endpoint and the credential of \<open>quiet_env\<close>.\<close>

definition local_env :: env where
  "local_env = quiet_env\<lparr>VITE_LOCAL_MODE := Some ''true''\<rparr>"


definition empty_world :: world where
  "empty_world = \<lparr>localStorage = Map.empty, users = [], trace = []\<rparr>"

definition idle_state :: AutoSyncState where
  "idle_state =
     \<lparr>isAutoSyncEnabled = True, isSyncing = False, lastSyncTime = None, hook_error = None,
      currentUser = JNull\<rparr>"

definition syncing_state :: AutoSyncState where
  "syncing_state = idle_state\<lparr>isSyncing := True\<rparr>"

text \<open>A state that already holds the remote user.\<close>

definition known_user_state :: AutoSyncState where
  "known_user_state =
     idle_state\<lparr>currentUser :=
       JObject [(''id'', JString ''5f0c8a52-0000-4000-8000-000000000001''),
                (''line_username'', JString ''alice'')]\<rparr>"

text \<open>The row the backend makes for \<open>alice\<close>, and the world after her first sign-in.\<close>

definition alice_row :: row where
  "alice_row =
     [(''id'', JString ''5f0c8a52-0000-4000-8000-000000000001''),
      (''line_username'', JString ''alice''),
      (''created_at'', JString ''2025-06-29T14:37:11.000Z'')]"

definition alice_world :: world where
  "alice_world =
     \<lparr>localStorage = Map.empty, users = [alice_row],
      trace = [Request (InsertUser ''alice''), Request (SelectUser ''alice'')]\<rparr>"



text \<open>Local storage holding an empty diary collection, and holding an empty session marker.\<close>

definition empty_journal_world :: world where
  "empty_journal_world = empty_world\<lparr>localStorage := [''journalEntries'' \<mapsto> ''[]'']\<rparr>"

text \<open>Local storage whose diary collection is no JSON text.\<close>

definition broken_journal_world :: world where
  "broken_journal_world = empty_world\<lparr>localStorage := [''journalEntries'' \<mapsto> ''[oops'']\<rparr>"

definition counselor_world :: "string \<Rightarrow> world" where
  "counselor_world marker =
     empty_world\<lparr>localStorage :=
       [''current_counselor'' \<mapsto> marker, ''journalEntries'' \<mapsto> ''[1]'',
        ''line-username'' \<mapsto> ''alice'']\<rparr>"

definition restore_state :: "string \<Rightarrow> AdminBackupRestoreState" where
  "restore_state content =
     \<lparr>backupInProgress = False, restoreInProgress = False, status = None,
      backupFile = Some (Readable (JString content))\<rparr>"

section \<open>Properties\<close>

subsection \<open>Helper facts\<close>

lemma users_emit [simp]: "users (emit ev w) = users w"
  and localStorage_emit [simp]: "localStorage (emit ev w) = localStorage w"
  and trace_emit [simp]: "trace (emit ev w) = ev # trace w"
  and moment_emit [simp]: "moment (emit ev w) = Suc (moment w)"
  by (simp_all add: emit_def moment_def)

lemma quiet_env_fields:
  "VITE_LOCAL_MODE quiet_env = None"
  "VITE_SUPABASE_URL quiet_env = Some ''https://project.supabase.co''"
  "VITE_SUPABASE_ANON_KEY quiet_env = Some ''anon-key''"
  "getCurrentUser quiet_env = (\<lambda>n. Some (DeviceUser ''alice''))"
  "JSON_parse quiet_env = sample_parse"
  "JSON_stringify quiet_env = sample_stringify"
  "StringToNumber quiet_env = (\<lambda>s. if s = ''70'' then Fin 70 else NaN)"
  "ObjectToNumber quiet_env = (\<lambda>v. NaN)"
  "Object_entries_other quiet_env = (\<lambda>v. [])"
  "toISOString quiet_env = (\<lambda>n. ''2025-06-29T14:37:11.000Z'')"
  "Date_now quiet_env = (\<lambda>n. ''1751207831000'')"
  "fault quiet_env = (\<lambda>n. None)"
  "gen_random_uuid quiet_env = (\<lambda>n. ''5f0c8a52-0000-4000-8000-000000000001'')"
  "diary_verdict quiet_env = (\<lambda>n rows. None)"
  "window_confirm quiet_env = (\<lambda>n. True)"
  by (simp_all add: quiet_env_def)

lemma supabase_quiet_env: "supabase quiet_env" "\<not> isLocalMode quiet_env"
  by (simp_all add: supabase_def isLocalMode_def configured_def quiet_env_fields)

lemma refusing_env_fields:
  "getCurrentUser refusing_env = (\<lambda>n. Some (DeviceUser ''alice''))"
  "JSON_parse refusing_env = sample_parse"
  "toISOString refusing_env = (\<lambda>n. ''2025-06-29T14:37:11.000Z'')"
  "Date_now refusing_env = (\<lambda>n. ''1751207831000'')"
  "fault refusing_env = (\<lambda>n. Some (Refuse (PgError ''42501'' ''permission denied'')))"
  by (simp_all add: refusing_env_def quiet_env_fields)

lemma supabase_refusing_env: "supabase refusing_env" "\<not> isLocalMode refusing_env"
  by (simp_all add: supabase_def isLocalMode_def configured_def refusing_env_def quiet_env_fields)

lemma unreachable_env_fields:
  "fault unreachable_env = (\<lambda>n. Some (Reject ''TypeError: Failed to fetch''))"
  by (simp_all add: unreachable_env_def quiet_env_fields)

lemma supabase_unreachable_env: "supabase unreachable_env"
  by (simp add: supabase_def isLocalMode_def configured_def unreachable_env_def quiet_env_fields)

lemma local_env_mode: "isLocalMode local_env" "\<not> supabase local_env"
  by (simp_all add: supabase_def isLocalMode_def local_env_def)



lemmas pass_defs =
  syncData_def syncData_useAutoSync_def syncData_try_def syncData_try_useAutoSync_def guarded_def
  settle_def tryBlock_def userName_def userName_useAutoSync_def resolveUser_def syncEntries_def
  noEntries_def getItem_def setItem_def new_Date_toISOString_def emit_def moment_def
  js_or_def opt_chain_def local_user_id_def Let_def

lemmas remote_defs =
  createOrGetUser_def insert_user_def send_def serve_def single_def named_def

lemma sample_parse_values:
  "sample_parse ''[]'' = Some (JArray [])"
  "sample_parse ''{}'' = Some (JObject [])"
  "sample_parse ''[oops'' = None"
  "sample_parse backup_text = Some backup_document"
  "sample_parse backup_text_without_version = Some backup_without_version"
  "sample_parse backup_text_without_section = Some backup_without_section"
  by (simp_all add: sample_parse_def backup_text_def backup_text_without_version_def
      backup_text_without_section_def)

lemmas sample_defs =
  known_user_state_def idle_state_def syncing_state_def empty_journal_world_def
  broken_journal_world_def empty_world_def sample_parse_values alice_row_def alice_world_def

lemma send_local [simp]: "localStorage (snd (send e rq w)) = localStorage w"
  by (cases rq)
     (auto simp add: send_def serve_def Let_def split: option.splits fault.splits prod.splits)

lemma send_trace [simp]: "trace (snd (send e rq w)) = Request rq # trace w"
  by (cases rq)
     (auto simp add: send_def serve_def Let_def split: option.splits fault.splits prod.splits)

subsection \<open>The guards of \<open>syncData\<close>\<close>

text \<open>
  The guard of line 111 holds for the flag the function reads: a call through a function
  whose render had \<open>isSyncing\<close> true returns \<open>false\<close> at once and leaves the state and the
  world as they were. A call through the function of the render of the hook's state is
  \<open>syncData\<close> as modelled above.
\<close>

lemma syncData_closure_guard:
  assumes "isSyncing captured"
  shows "syncData_closure e captured st w = (False, st, w)
       \<and> syncData_closure_useAutoSync e captured st w = (False, st, w)"
  using assms
  by (simp add: syncData_closure_def syncData_closure_useAutoSync_def guarded_closure_def)

lemma resolveUser_closure_current:
  assumes "currentUser captured = currentUser st"
  shows "resolveUser_closure e captured st lineUsername w = resolveUser e st lineUsername w"
  unfolding resolveUser_closure_def resolveUser_def assms by (rule refl)

lemma closure_of_current_render:
  "syncData_closure e st st w = syncData e st w"
  "syncData_closure_useAutoSync e st st w = syncData_useAutoSync e st w"
  by (simp_all add: syncData_closure_def syncData_closure_useAutoSync_def guarded_closure_def
      tryBlock_closure_def resolveUser_closure_current syncData_def syncData_useAutoSync_def
      guarded_def syncData_try_def syncData_try_useAutoSync_def tryBlock_def)

lemma syncData_guard:
  assumes "isSyncing st"
  shows "syncData e st w = (False, st, w)
       \<and> triggerManualSync e st w = (False, st, w)
       \<and> syncData_useAutoSync e st w = (False, st, w)
       \<and> triggerManualSync_useAutoSync e st w = (False, st, w)"
  using assms
  by (simp add: syncData_def triggerManualSync_def syncData_useAutoSync_def
      triggerManualSync_useAutoSync_def guarded_def)

text \<open>
  C1 fails on the code. The hook is in a state whose \<open>isSyncing\<close> is true: a pass has set
  the flag and awaits the backend. A second call comes through the function of a render
  made before the flag was set: \<open>useCallback\<close> gives \<open>syncData\<close> the flag of its render
  (\<open>part_000\<close> line 240, \<open>useAutoSync.ts\<close> line 202), so two calls through one function
  read the same flag, and the effect of \<open>part_000\<close> lines 250 to 289 gives the function
  of its render to a timer of 3 s and to a timer of 30 s and clears neither. The guard of
  the second call reads the flag of that render, which is false: the call does not
  return \<open>false\<close>. It asks the backend for the user and inserts the row, reads
  \<open>journalEntries\<close>, writes \<open>last_sync_time\<close>, returns \<open>true\<close>, and its \<open>finally\<close> sets
  \<open>isSyncing\<close> to false while the first pass is still under way. Both revisions of the
  hook.
\<close>

theorem stale_closure_second_pass:
  "isSyncing syncing_state
   \<and> \<not> isSyncing idle_state
   \<and> fst (syncData_closure quiet_env idle_state syncing_state empty_world) = True
   \<and> trace (snd (snd (syncData_closure quiet_env idle_state syncing_state empty_world))) =
         [SetItem ''last_sync_time'' ''2025-06-29T14:37:11.000Z'', ClockRead, ClockRead,
          GetItem ''journalEntries'', Request (InsertUser ''alice''), Request (SelectUser ''alice''),
          GetCurrentUser]
   \<and> localStorage (snd (snd (syncData_closure quiet_env idle_state syncing_state empty_world)))
         ''last_sync_time'' = Some ''2025-06-29T14:37:11.000Z''
   \<and> isSyncing (fst (snd (syncData_closure quiet_env idle_state syncing_state empty_world))) = False
   \<and> fst (syncData_closure_useAutoSync quiet_env idle_state syncing_state empty_world) = True
   \<and> trace (snd (snd (syncData_closure_useAutoSync quiet_env idle_state syncing_state empty_world))) =
         [SetItem ''last_sync_time'' ''2025-06-29T14:37:11.000Z'', ClockRead, ClockRead,
          GetItem ''journalEntries'', Request (InsertUser ''alice''), Request (SelectUser ''alice''),
          GetCurrentUser]"
  by (simp add: syncData_closure_def syncData_closure_useAutoSync_def guarded_closure_def
      tryBlock_closure_def resolveUser_closure_def pass_defs remote_defs sample_defs
      supabase_quiet_env quiet_env_fields)



subsection \<open>A pass with no diary records\<close>

text \<open>
  Looking the user up writes nothing to \<open>localStorage\<close> and sends no upsert: its only
  requests are those of \<open>createOrGetUser\<close> on the relation \<open>users\<close>.
\<close>

lemma insert_user_frame:
  "localStorage (snd (insert_user e n w)) = localStorage w
   \<and> trace (snd (insert_user e n w)) = Request (InsertUser n) # trace w"
proof -
  obtain r w1 where s: "send e (InsertUser n) w = (r, w1)" by fastforce
  have "localStorage w1 = localStorage w" "trace w1 = Request (InsertUser n) # trace w"
    using send_local [of e "InsertUser n" w] send_trace [of e "InsertUser n" w] s by simp_all
  then show ?thesis
    using s by (cases r) (simp_all add: insert_user_def)
qed

lemma createOrGetUser_frame:
  "localStorage (snd (createOrGetUser e n w)) = localStorage w
   \<and> (\<exists>es. trace (snd (createOrGetUser e n w)) = es @ trace w
         \<and> (\<forall>rows. Request (UpsertDiaries rows) \<notin> set es))"
proof -
  obtain r w1 where s: "send e (SelectUser n) w = (r, w1)" by fastforce
  have w1: "localStorage w1 = localStorage w" "trace w1 = Request (SelectUser n) # trace w"
    using send_local [of e "SelectUser n" w] send_trace [of e "SelectUser n" w] s by simp_all
  have ins: "localStorage (snd (insert_user e n w1)) = localStorage w
      \<and> trace (snd (insert_user e n w1)) = [Request (InsertUser n), Request (SelectUser n)] @ trace w"
    using insert_user_frame [of e n w1] w1 by simp
  have "localStorage (snd (createOrGetUser e n w)) = localStorage w
      \<and> (trace (snd (createOrGetUser e n w)) = [] @ trace w
         \<or> trace (snd (createOrGetUser e n w)) = [Request (SelectUser n)] @ trace w
         \<or> trace (snd (createOrGetUser e n w)) = [Request (InsertUser n), Request (SelectUser n)] @ trace w)"
    using s w1 ins by (cases r) (auto simp add: createOrGetUser_def)
  then show ?thesis
    by (elim conjE disjE) (rule conjI, assumption, rule exI, rule conjI, assumption, simp)+
qed

lemma resolveUser_frame:
  "localStorage (snd (snd (resolveUser e st lineUsername w))) = localStorage w
   \<and> (\<exists>es. trace (snd (snd (resolveUser e st lineUsername w))) = es @ trace w
         \<and> (\<forall>rows. Request (UpsertDiaries rows) \<notin> set es))"
proof -
  have same: "localStorage w = localStorage w \<and> (\<exists>es. trace w = es @ trace w
      \<and> (\<forall>rows. Request (UpsertDiaries rows) \<notin> set es))"
    by simp
  show ?thesis
  proof (cases lineUsername)
    case None
    then show ?thesis using same by (simp add: resolveUser_def)
  next
    case (Some name)
    show ?thesis
      using Some same createOrGetUser_frame [of e name w]
      by (auto simp add: resolveUser_def Let_def split: prod.splits)
  qed
qed

lemma userName_frame:
  assumes "(name :: env \<Rightarrow> world \<Rightarrow> string option \<times> world) = userName \<or> name = userName_useAutoSync"
  shows "localStorage (snd (name e w)) = localStorage w
       \<and> (\<exists>es. trace (snd (name e w)) = es @ trace w
             \<and> (\<forall>rows. Request (UpsertDiaries rows) \<notin> set es))"
proof -
  have "localStorage (snd (name e w)) = localStorage w
      \<and> (trace (snd (name e w)) = [GetCurrentUser] @ trace w
         \<or> trace (snd (name e w)) = [GetItem ''line-username'', GetCurrentUser] @ trace w)"
    using assms
    by (auto simp add: userName_def userName_useAutoSync_def getItem_def Let_def split: option.splits)
  then show ?thesis
    by (elim conjE disjE) (rule conjI, assumption, rule exI, rule conjI, assumption, simp)+
qed

lemma syncEntries_no_entries:
  assumes "localStorage w ''journalEntries'' = None \<or> localStorage w ''journalEntries'' = Some []"
  shows "syncEntries callback e st userId w =
      (Inr True, st\<lparr>lastSyncTime := Some (toISOString e (Suc (moment w)))\<rparr>,
       setItem ''last_sync_time'' (toISOString e (Suc (Suc (moment w))))
         (emit ClockRead (emit ClockRead (emit (GetItem ''journalEntries'') w))))"
  using assms
  by (auto simp add: syncEntries_def noEntries_def getItem_def new_Date_toISOString_def)

text \<open>
  The branch of \<open>!savedEntries\<close>. \<open>syncData\<close> tests the stored text: the key
  \<open>journalEntries\<close> is absent or holds the empty string. Such a pass, once it has passed
  the guards and has a user identifier (from the state or from \<open>createOrGetUser\<close>),
  returns \<open>true\<close>, writes a new \<open>last_sync_time\<close> and nothing else to \<open>localStorage\<close>, and
  sends no upsert to the diary relation. Both revisions of the hook: \<open>sync\<close> and \<open>name\<close>
  are \<open>syncData\<close> and its way to the user name, of the one or of the other.
\<close>

lemma syncData_no_entries:
  assumes "supabase e" and "\<not> isSyncing st"
    and "(sync, name) = (syncData, userName) \<or> (sync, name) = (syncData_useAutoSync, userName_useAutoSync)"
    and "name e w = (lineUsername, w0)"
    and "resolveUser e (st\<lparr>isSyncing := True, hook_error := None\<rparr>) lineUsername w0 = (Some userId, st1, w1)"
    and "localStorage w ''journalEntries'' = None \<or> localStorage w ''journalEntries'' = Some []"
  shows "sync e st w =
           (True,
            st1\<lparr>lastSyncTime := Some (toISOString e (Suc (moment w1))), isSyncing := False\<rparr>,
            setItem ''last_sync_time'' (toISOString e (Suc (Suc (moment w1))))
              (emit ClockRead (emit ClockRead (emit (GetItem ''journalEntries'') w1))))
       \<and> localStorage (snd (snd (sync e st w))) =
           (localStorage w)(''last_sync_time'' \<mapsto> toISOString e (Suc (Suc (moment w1))))
       \<and> (\<exists>es. trace (snd (snd (sync e st w))) = es @ trace w
             \<and> (\<forall>rows. Request (UpsertDiaries rows) \<notin> set es))"
proof -
  let ?st = "st\<lparr>isSyncing := True, hook_error := None\<rparr>"
  let ?t2 = "toISOString e (Suc (Suc (moment w1)))"
  let ?w' = "setItem ''last_sync_time'' ?t2
      (emit ClockRead (emit ClockRead (emit (GetItem ''journalEntries'') w1)))"
  have nl: "\<not> isLocalMode e" using assms(1) by (simp add: supabase_def)
  have nm: "name = userName \<or> name = userName_useAutoSync"
    using assms(3) by auto
  obtain callback where sync: "sync = guarded (tryBlock name callback)"
    using assms(3) by (auto simp add: syncData_def syncData_useAutoSync_def syncData_try_def
        syncData_try_useAutoSync_def)
  obtain es0 where w0: "localStorage w0 = localStorage w" "trace w0 = es0 @ trace w"
      "\<forall>rows. Request (UpsertDiaries rows) \<notin> set es0"
    using userName_frame [OF nm, of e w] assms(4) by auto
  obtain es1 where w1: "localStorage w1 = localStorage w0" "trace w1 = es1 @ trace w0"
      "\<forall>rows. Request (UpsertDiaries rows) \<notin> set es1"
    using resolveUser_frame [of e ?st lineUsername w0] assms(5) by auto
  have absent: "localStorage w1 ''journalEntries'' = None \<or> localStorage w1 ''journalEntries'' = Some []"
    using assms(6) w0(1) w1(1) by simp
  have block: "tryBlock name callback e ?st w =
      (Inr True, st1\<lparr>lastSyncTime := Some (toISOString e (Suc (moment w1)))\<rparr>, ?w')"
    using assms(4,5) syncEntries_no_entries [OF absent] by (simp add: tryBlock_def)
  have run: "sync e st w =
      (True, st1\<lparr>lastSyncTime := Some (toISOString e (Suc (moment w1))), isSyncing := False\<rparr>, ?w')"
    using assms(1,2) nl block by (simp add: sync guarded_def settle_def)
  have store: "localStorage ?w' = (localStorage w)(''last_sync_time'' \<mapsto> ?t2)"
    using w0(1) w1(1) by (simp add: setItem_def)
  have tr: "trace ?w' =
      ([SetItem ''last_sync_time'' ?t2, ClockRead, ClockRead, GetItem ''journalEntries''] @ es1 @ es0) @ trace w"
    using w0(2) w1(2) by (simp add: setItem_def)
  have none: "\<forall>rows. Request (UpsertDiaries rows)
      \<notin> set ([SetItem ''last_sync_time'' ?t2, ClockRead, ClockRead, GetItem ''journalEntries''] @ es1 @ es0)"
    using w0(3) w1(3) by simp
  show ?thesis
    unfolding run using store tr none by (simp only: snd_conv) blast
qed

lemma syncData_no_entries_absent_key:
  "fst (syncData quiet_env idle_state empty_world) = True
   \<and> localStorage (snd (snd (syncData quiet_env idle_state empty_world))) =
         [''last_sync_time'' \<mapsto> ''2025-06-29T14:37:11.000Z'']
   \<and> trace (snd (snd (syncData quiet_env idle_state empty_world))) =
         [SetItem ''last_sync_time'' ''2025-06-29T14:37:11.000Z'', ClockRead, ClockRead,
          GetItem ''journalEntries'', Request (InsertUser ''alice''), Request (SelectUser ''alice''),
          GetCurrentUser]
   \<and> fst (syncData_useAutoSync quiet_env known_user_state empty_world) = True
   \<and> trace (snd (snd (syncData_useAutoSync quiet_env known_user_state empty_world))) =
         [SetItem ''last_sync_time'' ''2025-06-29T14:37:11.000Z'', ClockRead, ClockRead,
          GetItem ''journalEntries'', GetCurrentUser]"
proof -
  let ?w0 = "emit GetCurrentUser empty_world"
  let ?w1 = "\<lparr>localStorage = Map.empty, users = [alice_row],
             trace = [Request (InsertUser ''alice''), Request (SelectUser ''alice''), GetCurrentUser]\<rparr>"
  have idle: "\<not> isSyncing idle_state" "\<not> isSyncing known_user_state"
    by (simp_all add: idle_state_def known_user_state_def)
  have which: "(syncData, userName) = (syncData, userName)
      \<or> (syncData, userName) = (syncData_useAutoSync, userName_useAutoSync)"
    by simp
  have which': "(syncData_useAutoSync, userName_useAutoSync) = (syncData, userName)
      \<or> (syncData_useAutoSync, userName_useAutoSync) = (syncData_useAutoSync, userName_useAutoSync)"
    by simp
  have name: "userName quiet_env empty_world = (Some ''alice'', ?w0)"
    by (simp add: userName_def quiet_env_fields)
  have name': "userName_useAutoSync quiet_env empty_world = (Some ''alice'', ?w0)"
    by (simp add: userName_useAutoSync_def quiet_env_fields)
  have user: "resolveUser quiet_env (idle_state\<lparr>isSyncing := True, hook_error := None\<rparr>)
      (Some ''alice'') ?w0 =
      (Some (JString ''5f0c8a52-0000-4000-8000-000000000001''),
       idle_state\<lparr>isSyncing := True, hook_error := None, currentUser := JObject alice_row\<rparr>, ?w1)"
    by (simp add: resolveUser_def remote_defs js_or_def opt_chain_def local_user_id_def Let_def
        emit_def moment_def idle_state_def empty_world_def alice_row_def
        supabase_quiet_env quiet_env_fields)
  have user': "resolveUser quiet_env (known_user_state\<lparr>isSyncing := True, hook_error := None\<rparr>)
      (Some ''alice'') ?w0 =
      (Some (JString ''5f0c8a52-0000-4000-8000-000000000001''),
       known_user_state\<lparr>isSyncing := True, hook_error := None\<rparr>, ?w0)"
    by (simp add: resolveUser_def js_or_def opt_chain_def local_user_id_def Let_def
        known_user_state_def idle_state_def supabase_quiet_env)
  have absent: "localStorage empty_world ''journalEntries'' = None
      \<or> localStorage empty_world ''journalEntries'' = Some []"
    by (simp add: empty_world_def)
  show ?thesis
    using syncData_no_entries [OF supabase_quiet_env(1) idle(1) which name user absent]
      syncData_no_entries [OF supabase_quiet_env(1) idle(2) which' name' user' absent]
    by (simp add: setItem_def emit_def moment_def empty_world_def quiet_env_fields)
qed

text \<open>
  C4 fails on the code for a collection that is empty. With \<open>journalEntries\<close> holding
  \<open>[]\<close> (as \<open>cleanupTestData\<close> leaves it when it removes every record) the stored text is
  not empty, the test \<open>!savedEntries\<close> of line 163 lets it pass, and the pass sends the
  bulk upsert with an empty batch. When the backend refuses it the pass returns \<open>false\<close>
  and writes no \<open>last_sync_time\<close>, in both revisions of the hook; when the backend
  accepts it the pass returns \<open>true\<close> after the request. The branch of line 163 is the
  one the hook logs as having no data to synchronise, and \<open>syncConsentHistories\<close>
  (\<open>supabase.ts\<close> lines 373 to 376) returns \<open>true\<close> on an empty array before any request.
\<close>

theorem empty_collection_upsert:
  "localStorage empty_journal_world ''journalEntries'' = Some ''[]''
   \<and> JSON_parse refusing_env ''[]'' = Some (JArray [])
   \<and> fst (syncData refusing_env known_user_state empty_journal_world) = False
   \<and> localStorage (snd (snd (syncData refusing_env known_user_state empty_journal_world)))
         ''last_sync_time'' = None
   \<and> trace (snd (snd (syncData refusing_env known_user_state empty_journal_world))) =
         [Request (UpsertDiaries []), GetItem ''journalEntries'', GetCurrentUser]
   \<and> fst (syncData_useAutoSync refusing_env known_user_state empty_journal_world) = False
   \<and> localStorage (snd (snd (syncData_useAutoSync refusing_env known_user_state empty_journal_world)))
         ''last_sync_time'' = None
   \<and> trace (snd (snd (syncData_useAutoSync refusing_env known_user_state empty_journal_world))) =
         [Request (UpsertDiaries []), GetItem ''journalEntries'', GetCurrentUser]
   \<and> fst (syncData quiet_env known_user_state empty_journal_world) = True
   \<and> trace (snd (snd (syncData quiet_env known_user_state empty_journal_world))) =
         [SetItem ''last_sync_time'' ''2025-06-29T14:37:11.000Z'', ClockRead,
          Request (UpsertDiaries []), GetItem ''journalEntries'', GetCurrentUser]"
  by (simp add: pass_defs remote_defs sample_defs syncDiaries_def send_def serve_def
      supabase_refusing_env refusing_env_fields supabase_quiet_env quiet_env_fields)

subsection \<open>The identity resolver\<close>

text \<open>
  Both operations begin with \<open>if (!supabase) return null\<close> (lines 17 and 62). The client
  is \<open>null\<close> in local-only mode (line 10) and with no endpoint or no credential, so in
  either case the two operations return \<open>null\<close> without a request and without raising.
\<close>

lemma local_mode_identity:
  "isLocalMode e \<Longrightarrow> createOrGetUser e lineUsername w = (JNull, w) \<and> getUserId e lineUsername w = (JNull, w)"
  by (simp add: createOrGetUser_def getUserId_def supabase_def)

lemma identity_without_client:
  assumes "\<not> (configured (VITE_SUPABASE_URL e) \<and> configured (VITE_SUPABASE_ANON_KEY e))"
  shows "createOrGetUser e lineUsername w = (JNull, w) \<and> getUserId e lineUsername w = (JNull, w)"
  using assms by (auto simp add: createOrGetUser_def getUserId_def supabase_def)

text \<open>
  C5 fails on the code. In local-only mode, with the endpoint and the credential
  configured, \<open>createOrGetUser\<close> and \<open>getUserId\<close> return \<open>null\<close> and not the sentinel
  \<open>local-user-id\<close>: the guard \<open>if (!supabase) return null\<close> returns before the branch
  \<open>if (isLocalMode)\<close> of lines 19 to 22 (and 64 to 67) that gives the sentinel, and that
  branch is never reached. With no endpoint and no credential the two operations return
  \<open>null\<close> as well. Neither sends a request.
\<close>

theorem local_mode_returns_null:
  "isLocalMode local_env
   \<and> configured (VITE_SUPABASE_URL local_env)
   \<and> configured (VITE_SUPABASE_ANON_KEY local_env)
   \<and> createOrGetUser local_env ''alice'' empty_world = (JNull, empty_world)
   \<and> getUserId local_env ''alice'' empty_world = (JNull, empty_world)
   \<and> field (fst (createOrGetUser local_env ''alice'' empty_world)) ''id'' = JUndefined
   \<and> JNull \<noteq> JString local_user_id
   \<and> createOrGetUser unconfigured_env ''alice'' empty_world = (JNull, empty_world)
   \<and> getUserId unconfigured_env ''alice'' empty_world = (JNull, empty_world)"
  by (simp add: createOrGetUser_def getUserId_def supabase_def isLocalMode_def configured_def
      local_env_def unconfigured_env_def quiet_env_def)

lemma send_select:
  "fault e (moment w) = None \<Longrightarrow>
   send e (SelectUser n) w = (single (filter (named n) (users w)) JObject, emit (Request (SelectUser n)) w)"
  by (simp add: send_def serve_def)

lemma snd_send_select: "snd (send e (SelectUser n) w) = emit (Request (SelectUser n)) w"
  by (simp add: send_def serve_def split: option.splits fault.splits)

lemma insert_user_row:
  assumes "insert_user e n w = (u, w1)" and "u \<noteq> JNull"
  shows "\<exists>r. u = JObject r \<and> filter (named n) (users w1) = [r]"
  using assms
  by (auto simp add: insert_user_def send_def serve_def named_def Let_def
      split: option.splits fault.splits if_splits)

lemma createOrGetUser_row:
  assumes "supabase e" and "createOrGetUser e n w = (u, w1)" and "u \<noteq> JNull"
  shows "\<exists>r. u = JObject r \<and> filter (named n) (users w1) = [r]"
proof -
  have nl: "\<not> isLocalMode e" using assms(1) by (simp add: supabase_def)
  obtain rep w' where s: "send e (SelectUser n) w = (rep, w')" by fastforce
  have w': "w' = emit (Request (SelectUser n)) w"
    using snd_send_select [of e n w] s by simp
  show ?thesis
  proof (cases rep)
    case (Data d)
    then have "\<exists>r. d = JObject r \<and> filter (named n) (users w) = [r]"
      using s by (auto simp add: send_def serve_def single_def split: option.splits fault.splits list.splits)
    then show ?thesis
      using assms nl s Data w' by (auto simp add: createOrGetUser_def)
  next
    case (Failed err)
    then show ?thesis
      using assms nl s insert_user_row [of e n w' u w1]
      by (auto simp add: createOrGetUser_def split: if_splits)
  next
    case (Threw x)
    then show ?thesis
      using assms nl s by (auto simp add: createOrGetUser_def)
  qed
qed

text \<open>
  C6. With a client:
  \<^item> when the lookup is served and finds the one row of the name, \<open>createOrGetUser\<close>
    returns that row after the lookup alone (no insert);
  \<^item> when the lookup answers with an error whose code is not PGRST116, or the request
    raises, it returns \<open>null\<close> after the lookup alone (no insert);
  \<^item> when a call has returned a user, a second call for the same name, whose lookup is
    served, returns the same user (hence the same identifier) after the lookup alone.
  The relation \<open>users\<close> holds at most one row of a name when the first call has returned
  one: \<open>.single()\<close> found exactly one, or the insert went through the UNIQUE constraint.
\<close>

theorem createOrGetUser_idempotent:
  assumes "supabase e"
  shows "(fault e (moment w) = None \<and> filter (named n) (users w) = [r]
            \<longrightarrow> createOrGetUser e n w = (JObject r, emit (Request (SelectUser n)) w))
       \<and> (fst (send e (SelectUser n) w) = Failed err \<and> code err \<noteq> ''PGRST116''
            \<longrightarrow> createOrGetUser e n w = (JNull, emit (Request (SelectUser n)) w))
       \<and> (fst (send e (SelectUser n) w) = Threw ex
            \<longrightarrow> createOrGetUser e n w = (JNull, emit (Request (SelectUser n)) w))
       \<and> (createOrGetUser e n w = (u, w1) \<and> u \<noteq> JNull \<and> fault e (moment w1) = None
            \<longrightarrow> createOrGetUser e n w1 = (u, emit (Request (SelectUser n)) w1))"
proof -
  have nl: "\<not> isLocalMode e" using assms by (simp add: supabase_def)
  have found: "createOrGetUser e n v = (JObject r', emit (Request (SelectUser n)) v)"
    if "fault e (moment v) = None" and "filter (named n) (users v) = [r']" for v r'
    using that assms nl by (simp add: createOrGetUser_def send_select single_def)
  have refused: "createOrGetUser e n w = (JNull, emit (Request (SelectUser n)) w)"
    if "fst (send e (SelectUser n) w) = Failed err" and "code err \<noteq> ''PGRST116''"
    using that assms nl snd_send_select [of e n w]
    by (cases "send e (SelectUser n) w") (simp add: createOrGetUser_def)
  have threw: "createOrGetUser e n w = (JNull, emit (Request (SelectUser n)) w)"
    if "fst (send e (SelectUser n) w) = Threw ex"
    using that assms nl snd_send_select [of e n w]
    by (cases "send e (SelectUser n) w") (simp add: createOrGetUser_def)
  have again: "createOrGetUser e n w1 = (u, emit (Request (SelectUser n)) w1)"
    if h1: "createOrGetUser e n w = (u, w1)" and h2: "u \<noteq> JNull" and h3: "fault e (moment w1) = None"
  proof -
    obtain r' where "u = JObject r'" and "filter (named n) (users w1) = [r']"
      using createOrGetUser_row [OF assms h1 h2] by blast
    then show ?thesis using found [OF h3] by simp
  qed
  show ?thesis using found refused threw again by blast
qed

theorem createOrGetUser_idempotent_witness:
  "supabase quiet_env
   \<and> createOrGetUser quiet_env ''alice'' empty_world = (JObject alice_row, alice_world)
   \<and> createOrGetUser quiet_env ''alice'' alice_world =
         (JObject alice_row, emit (Request (SelectUser ''alice'')) alice_world)
   \<and> field (JObject alice_row) ''id'' = JString ''5f0c8a52-0000-4000-8000-000000000001''
   \<and> supabase refusing_env
   \<and> createOrGetUser refusing_env ''alice'' empty_world =
         (JNull, emit (Request (SelectUser ''alice'')) empty_world)
   \<and> supabase unreachable_env
   \<and> createOrGetUser unreachable_env ''alice'' empty_world =
         (JNull, emit (Request (SelectUser ''alice'')) empty_world)"
proof -
  have first: "createOrGetUser quiet_env ''alice'' empty_world = (JObject alice_row, alice_world)"
    by (simp add: remote_defs sample_defs emit_def moment_def Let_def supabase_quiet_env
        quiet_env_fields)
  have user: "JObject alice_row \<noteq> JNull"
    by simp
  have served: "fault quiet_env (moment alice_world) = None"
    by (simp add: quiet_env_fields)
  have second: "createOrGetUser quiet_env ''alice'' alice_world =
      (JObject alice_row, emit (Request (SelectUser ''alice'')) alice_world)"
    using createOrGetUser_idempotent [OF supabase_quiet_env(1),
        where w = empty_world and n = "''alice''" and u = "JObject alice_row" and ?w1.0 = alice_world]
      first user served
    by blast
  have refusal: "fst (send refusing_env (SelectUser ''alice'') empty_world) =
      Failed (PgError ''42501'' ''permission denied'')"
    by (simp add: send_def refusing_env_fields)
  have other: "code (PgError ''42501'' ''permission denied'') \<noteq> ''PGRST116''"
    by simp
  have refused: "createOrGetUser refusing_env ''alice'' empty_world =
      (JNull, emit (Request (SelectUser ''alice'')) empty_world)"
    using createOrGetUser_idempotent [OF supabase_refusing_env(1),
        where w = empty_world and n = "''alice''"
          and err = "PgError ''42501'' ''permission denied''"]
      refusal other
    by blast
  have found: "filter (named ''alice'') (users alice_world) = [alice_row]"
    by (simp add: named_def alice_world_def alice_row_def)
  have short: "createOrGetUser quiet_env ''alice'' alice_world =
      (JObject alice_row, emit (Request (SelectUser ''alice'')) alice_world)"
    using createOrGetUser_idempotent [OF supabase_quiet_env(1),
        where w = alice_world and n = "''alice''" and r = alice_row]
      served found
    by blast
  have lost: "fst (send unreachable_env (SelectUser ''alice'') empty_world) =
      Threw (Rejected ''TypeError: Failed to fetch'')"
    by (simp add: send_def unreachable_env_fields)
  have thrown: "createOrGetUser unreachable_env ''alice'' empty_world =
      (JNull, emit (Request (SelectUser ''alice'')) empty_world)"
    using createOrGetUser_idempotent [OF supabase_unreachable_env,
        where w = empty_world and n = "''alice''" and ex = "Rejected ''TypeError: Failed to fetch''"]
      lost
    by blast
  have ident: "field (JObject alice_row) ''id'' = JString ''5f0c8a52-0000-4000-8000-000000000001''"
    by (simp add: alice_row_def)
  show ?thesis
    using first second short refused thrown ident supabase_quiet_env(1) supabase_refusing_env(1)
      supabase_unreachable_env
    by (intro conjI) simp_all
qed

subsection \<open>\<open>syncDiaries\<close>\<close>

text \<open>
  C10. When local-only mode is set, or \<open>userId\<close> is empty (falsy), or \<open>userId\<close> is the
  sentinel \<open>local-user-id\<close>, \<open>syncDiaries\<close> answers \<open>success = false\<close> with the text of line
  93 or of line 96 and leaves the world as it was: no request is sent, so no record
  reaches the diary relation under the sentinel.
\<close>

theorem syncDiaries_sentinel_never_synced:
  assumes "isLocalMode e \<or> \<not> truthy userId \<or> userId = JString local_user_id"
  shows "success (fst (syncDiaries e userId diaries w)) = False
       \<and> (error (fst (syncDiaries e userId diaries w)) = Some NoSupabaseConnection
          \<or> error (fst (syncDiaries e userId diaries w)) = Some LocalModeOrInvalidUserId)
       \<and> snd (syncDiaries e userId diaries w) = w"
  using assms by (auto simp add: syncDiaries_def)

theorem syncDiaries_sentinel_never_synced_witness:
  "syncDiaries quiet_env (JString local_user_id) [legacy_record] empty_world =
     (\<lparr>success = False, error = Some LocalModeOrInvalidUserId, data = None\<rparr>, empty_world)
   \<and> syncDiaries quiet_env (JString []) [legacy_record] empty_world =
     (\<lparr>success = False, error = Some LocalModeOrInvalidUserId, data = None\<rparr>, empty_world)
   \<and> trace (snd (syncDiaries quiet_env (JString local_user_id) [legacy_record] empty_world)) = []
   \<and> isLocalMode local_env
   \<and> syncDiaries local_env (JString ''u-1'') [legacy_record] empty_world =
     (\<lparr>success = False, error = Some NoSupabaseConnection, data = None\<rparr>, empty_world)"
proof -
  have c: "isLocalMode local_env \<or> \<not> truthy (JString ''u-1'') \<or> JString ''u-1'' = JString local_user_id"
    by (simp add: local_env_mode)
  have a: "isLocalMode quiet_env \<or> \<not> truthy (JString local_user_id) \<or> JString local_user_id = JString local_user_id"
    by simp
  have b: "isLocalMode quiet_env \<or> \<not> truthy (JString []) \<or> JString [] = JString local_user_id"
    by simp
  show ?thesis
    using syncDiaries_sentinel_never_synced [OF a, of "[legacy_record]" empty_world]
      syncDiaries_sentinel_never_synced [OF b, of "[legacy_record]" empty_world]
      syncDiaries_sentinel_never_synced [OF c, of "[legacy_record]" empty_world]
    by (simp add: syncDiaries_def supabase_quiet_env local_env_mode empty_world_def)
qed







lemma formatDiary_total:
  assumes "\<not> nullish diary"
  shows "\<exists>row w1. formatDiary e userId diary w = (Inr row, w1)"
  using assms unfolding formatDiary_def
  by (cases "truthy (field diary ''id'')"; cases "truthy (field diary ''created_at'')")
     (simp_all add: Let_def Date_now_toString_def new_Date_toISOString_def)

lemma map_js_total:
  assumes "\<And>x v. x \<in> set xs \<Longrightarrow> \<exists>y v1. f x v = (Inr y, v1)"
  shows "\<exists>ys w1. map_js f xs w = (Inr ys, w1)"
  using assms
proof (induction xs arbitrary: w)
  case Nil
  then show ?case by simp
next
  case (Cons x xs)
  obtain y v1 where head: "f x w = (Inr y, v1)"
    using Cons.prems [of x w] by auto
  obtain ys w1 where tail: "map_js f xs v1 = (Inr ys, w1)"
    using Cons.IH [of v1] Cons.prems by auto
  show ?case
    by (simp add: head tail)
qed

lemma formatted_batch:
  assumes "\<forall>diary \<in> set diaries. \<not> nullish diary"
  shows "\<exists>batch w1. map_js (formatDiary e userId) diaries w = (Inr batch, w1)"
  using assms formatDiary_total by (intro map_js_total) blast





subsection \<open>The scores of a diary record\<close>










subsection \<open>Restore from a backup\<close>

lemma setItems_store: "localStorage (setItems kvs w) = localStorage w ++ map_of (rev kvs)"
proof (induction kvs arbitrary: w)
  case Nil
  then show ?case by simp
next
  case (Cons kv kvs)
  obtain k v where kv: "kv = (k, v)" by (cases kv)
  have step: "localStorage (setItem k v w) = (localStorage w)(k \<mapsto> v)"
    by (simp add: setItem_def)
  have "localStorage (setItems (kv # kvs) w) = localStorage (setItem k v w) ++ map_of (rev kvs)"
    unfolding kv setItems.simps by (rule Cons.IH)
  also have "\<dots> = localStorage w ++ map_of (rev (kv # kvs))"
    unfolding step kv by (auto simp add: fun_eq_iff map_add_def split: option.splits)
  finally show ?case .
qed

lemma collect_marker:
  "collectPreserved keysToPreserve w =
     ((case localStorage w ''current_counselor'' of
         None \<Rightarrow> []
       | Some v \<Rightarrow> if v = [] then [] else [(''current_counselor'', v)]),
      emit (GetItem ''current_counselor'') w)"
  by (simp add: keysToPreserve_def getItem_def split: option.splits)

lemma restoreLocalStorage_store:
  "localStorage (restoreLocalStorage e saved w) =
     (case localStorage w ''current_counselor'' of
        None \<Rightarrow> Map.empty
      | Some v \<Rightarrow> if v = [] then Map.empty else [''current_counselor'' \<mapsto> v])
     ++ map_of (rev (map (\<lambda>(key, v). (key, serialize e v)) (Object_entries e saved)))"
  by (simp add: restoreLocalStorage_def collect_marker setItems_store clear_def setItem_def
      split: option.splits)

lemma field_defined: "field v k \<noteq> JUndefined \<Longrightarrow> \<exists>kvs. v = JObject kvs"
  by (cases v) simp_all

lemma truthy_defined: "truthy v \<Longrightarrow> v \<noteq> JUndefined"
  by (cases v) simp_all

text \<open>
  C7. A backup file that is read and parsed to a document with no \<open>metadata\<close>, or whose
  \<open>metadata\<close> has no \<open>version\<close>: \<open>handleRestoreFromBackup\<close> (the user having confirmed)
  sets the status of line 273 with \<open>success = false\<close> and leaves the world as it was; every
  key of \<open>localStorage\<close> holds what it held.
\<close>

theorem restore_rejects_document_without_version:
  assumes "backupFile ui = Some (Readable (JString content))"
    and "window_confirm e (moment w)"
    and "JSON_parse e content = Some backupData"
    and "field backupData ''metadata'' = JUndefined
         \<or> field (field backupData ''metadata'') ''version'' = JUndefined"
  shows "handleRestoreFromBackup e ui w =
           (ui\<lparr>restoreInProgress := False, status := Some (Status RestoreFailed False)\<rparr>, w)
       \<and> localStorage (snd (handleRestoreFromBackup e ui w)) = localStorage w"
proof -
  have v: "field (field backupData ''metadata'') ''version'' = JUndefined"
    using assms(4) by auto
  have "onload e (JString content) (ui\<lparr>restoreInProgress := True, status := None\<rparr>) w =
      (ui\<lparr>restoreInProgress := False, status := Some (Status RestoreFailed False)\<rparr>, w)"
    using assms(3) v by (simp add: onload_def Let_def)
  then show ?thesis
    using assms(1,2) by (simp add: handleRestoreFromBackup_def Let_def)
qed

theorem restore_rejects_document_without_version_witness:
  "JSON_parse quiet_env ''{}'' = Some (JObject [])
   \<and> field (JObject []) ''metadata'' = JUndefined
   \<and> handleRestoreFromBackup quiet_env (restore_state ''{}'') (counselor_world ''dr-sato'') =
       ((restore_state ''{}'')\<lparr>restoreInProgress := False, status := Some (Status RestoreFailed False)\<rparr>,
        counselor_world ''dr-sato'')
   \<and> JSON_parse quiet_env backup_text_without_version = Some backup_without_version
   \<and> field (field backup_without_version ''metadata'') ''version'' = JUndefined
   \<and> handleRestoreFromBackup quiet_env (restore_state backup_text_without_version)
         (counselor_world ''dr-sato'') =
       ((restore_state backup_text_without_version)
          \<lparr>restoreInProgress := False, status := Some (Status RestoreFailed False)\<rparr>,
        counselor_world ''dr-sato'')"
proof -
  have chosen: "backupFile (restore_state backup_text_without_version) =
      Some (Readable (JString backup_text_without_version))"
    by (simp add: restore_state_def)
  have confirmed: "window_confirm quiet_env (moment (counselor_world ''dr-sato''))"
    by (simp add: quiet_env_fields)
  have parsed: "JSON_parse quiet_env backup_text_without_version = Some backup_without_version"
    by (simp add: quiet_env_fields sample_parse_values)
  have lacking: "field (field backup_without_version ''metadata'') ''version'' = JUndefined"
    by (simp add: backup_without_version_def)
  have lacking': "field backup_without_version ''metadata'' = JUndefined
      \<or> field (field backup_without_version ''metadata'') ''version'' = JUndefined"
    using lacking by simp
  have chosen0: "backupFile (restore_state ''{}'') = Some (Readable (JString ''{}''))"
    by (simp add: restore_state_def)
  have parsed0: "JSON_parse quiet_env ''{}'' = Some (JObject [])"
    by (simp add: quiet_env_fields sample_parse_values)
  have bare: "field (JObject []) ''metadata'' = JUndefined"
    by simp
  have bare': "field (JObject []) ''metadata'' = JUndefined
      \<or> field (field (JObject []) ''metadata'') ''version'' = JUndefined"
    by simp
  show ?thesis
    using parsed lacking parsed0 bare
      restore_rejects_document_without_version [OF chosen confirmed parsed lacking']
      restore_rejects_document_without_version [OF chosen0 confirmed parsed0 bare']
    by simp
qed

text \<open>
  C8, as the code has it. A restore from a file that is read and parsed to a document
  whose \<open>metadata\<close> holds a \<open>version\<close> ends with the status of success. Line 202 restores
  \<open>localStorage\<close> only \<open>if (backupData.localStorage)\<close>: with no such section (or one that
  is falsy) nothing is cleared and nothing is written, every key holds what it held.
  With a section, line 210 keeps the marker with \<open>if (value)\<close>, a marker that is set to
  a string that is not empty, and \<open>localStorage\<close> after the restore is that marker
  overwritten by the entries of the section, each value written as it is when it is a
  string and as JSON otherwise (for a key the section holds more than once, the last
  one). So a marker that is not empty holds its value when the section lacks the key, a
  marker that is the empty string is absent afterwards, and every other key holds what
  the section gives it and nothing when the section lacks it. The entries of a section
  that is an object are its own fields. (A write to \<open>localStorage\<close> always stores here:
  \<open>setItem\<close> has no failure for a full store.)
\<close>

theorem restore_preserves_session_marker:
  assumes "backupFile ui = Some (Readable (JString content))"
    and "window_confirm e (moment w)"
    and "JSON_parse e content = Some backupData"
    and "truthy (field (field backupData ''metadata'') ''version'')"
  shows "let saved = field backupData ''localStorage'';
             written = map (\<lambda>(key, v). (key, serialize e v)) (Object_entries e saved);
             after = localStorage (snd (handleRestoreFromBackup e ui w))
         in status (fst (handleRestoreFromBackup e ui w)) = Some (Status RestoreCompleted True)
          \<and> (\<not> truthy saved \<longrightarrow> after = localStorage w)
          \<and> (truthy saved \<longrightarrow>
                after =
                  (case localStorage w ''current_counselor'' of
                     None \<Rightarrow> Map.empty
                   | Some marker \<Rightarrow>
                       if marker = [] then Map.empty else [''current_counselor'' \<mapsto> marker])
                  ++ map_of (rev written))
          \<and> (\<forall>marker. truthy saved \<and> localStorage w ''current_counselor'' = Some marker
                  \<and> marker \<noteq> [] \<and> ''current_counselor'' \<notin> fst ` set (Object_entries e saved)
                \<longrightarrow> after ''current_counselor'' = Some marker)
          \<and> (truthy saved \<and> localStorage w ''current_counselor'' = Some []
                  \<and> ''current_counselor'' \<notin> fst ` set (Object_entries e saved)
                \<longrightarrow> after ''current_counselor'' = None)
          \<and> (\<forall>key. truthy saved \<and> key \<noteq> ''current_counselor''
                \<longrightarrow> after key = map_of (rev written) key)
          \<and> (\<forall>fields. saved = JObject fields
                \<longrightarrow> truthy saved \<and> Object_entries e saved = fields)"
proof -
  let ?saved = "field backupData ''localStorage''"
  let ?written = "map (\<lambda>(key, v). (key, serialize e v)) (Object_entries e ?saved)"
  let ?after = "localStorage (snd (handleRestoreFromBackup e ui w))"
  let ?kept = "case localStorage w ''current_counselor'' of
                 None \<Rightarrow> Map.empty
               | Some marker \<Rightarrow>
                   if marker = [] then Map.empty else [''current_counselor'' \<mapsto> marker]"
  let ?ui = "ui\<lparr>restoreInProgress := True, status := None\<rparr>"
  have version: "field (field backupData ''metadata'') ''version'' \<noteq> JUndefined"
    using assms(4) truthy_defined by blast
  then obtain meta where meta: "field backupData ''metadata'' = JObject meta"
    using field_defined by blast
  then have "field backupData ''metadata'' \<noteq> JUndefined" by simp
  then obtain doc where doc: "backupData = JObject doc"
    using field_defined by blast
  have run: "onload e (JString content) ?ui w =
      (?ui\<lparr>status := Some (Status RestoreCompleted True)\<rparr>,
       emit ReloadScheduled (if truthy ?saved then restoreLocalStorage e ?saved w else w))"
    using assms(3,4) meta unfolding doc by (simp add: onload_def Let_def)
  have whole: "handleRestoreFromBackup e ui w =
      (?ui\<lparr>status := Some (Status RestoreCompleted True)\<rparr>,
       emit ReloadScheduled (if truthy ?saved then restoreLocalStorage e ?saved w else w))"
    using assms(1,2) run by (simp add: handleRestoreFromBackup_def Let_def)
  have completed: "status (fst (handleRestoreFromBackup e ui w)) = Some (Status RestoreCompleted True)"
    by (simp add: whole)
  have untouched: "?after = localStorage w" if "\<not> truthy ?saved"
    using that by (simp add: whole)
  have store: "?after = ?kept ++ map_of (rev ?written)" if "truthy ?saved"
    using that by (simp add: whole restoreLocalStorage_store)
  have keys: "fst ` set (rev ?written) = fst ` set (Object_entries e ?saved)"
    by (force simp add: image_iff split: prod.splits)
  have absent: "map_of (rev ?written) ''current_counselor'' = None"
    if "''current_counselor'' \<notin> fst ` set (Object_entries e ?saved)"
    using that keys by (simp add: map_of_eq_None_iff del: set_rev)
  have kept: "?after ''current_counselor'' = Some marker"
    if "truthy ?saved \<and> localStorage w ''current_counselor'' = Some marker \<and> marker \<noteq> []
        \<and> ''current_counselor'' \<notin> fst ` set (Object_entries e ?saved)" for marker
    using that store absent by (simp add: map_add_def)
  have dropped: "?after ''current_counselor'' = None"
    if "truthy ?saved \<and> localStorage w ''current_counselor'' = Some []
        \<and> ''current_counselor'' \<notin> fst ` set (Object_entries e ?saved)"
    using that store absent by (simp add: map_add_def)
  have others: "?after key = map_of (rev ?written) key"
    if "truthy ?saved \<and> key \<noteq> ''current_counselor''" for key
    using that store by (simp add: map_add_def split: option.splits)
  have object: "truthy ?saved \<and> Object_entries e ?saved = fields" if "?saved = JObject fields" for fields
    using that by (simp add: Object_entries_def)
  show ?thesis
    unfolding Let_def
  proof (intro conjI allI impI)
    show "status (fst (handleRestoreFromBackup e ui w)) = Some (Status RestoreCompleted True)"
      by (rule completed)
  qed (use untouched store kept dropped others object in blast)+
qed

theorem restore_preserves_session_marker_witness:
  "status (fst (handleRestoreFromBackup quiet_env (restore_state backup_text) (counselor_world ''dr-sato'')))
     = Some (Status RestoreCompleted True)
   \<and> localStorage (snd (handleRestoreFromBackup quiet_env (restore_state backup_text)
         (counselor_world ''dr-sato''))) =
       [''current_counselor'' \<mapsto> ''dr-sato'', ''journalEntries'' \<mapsto> ''[]'',
        ''auto_sync_enabled'' \<mapsto> ''true'', ''visits'' \<mapsto> ''7'']
   \<and> localStorage (counselor_world ''dr-sato'') ''line-username'' = Some ''alice''
   \<and> status (fst (handleRestoreFromBackup quiet_env (restore_state backup_text_without_section)
         (counselor_world ''dr-sato''))) = Some (Status RestoreCompleted True)
   \<and> localStorage (snd (handleRestoreFromBackup quiet_env (restore_state backup_text_without_section)
         (counselor_world ''dr-sato''))) = localStorage (counselor_world ''dr-sato'')"
proof -
  let ?saved = "[(''journalEntries'', JArray []), (''auto_sync_enabled'', JString ''true''),
                 (''visits'', JNumber (Fin 7))]"
  have chosen: "backupFile (restore_state backup_text) = Some (Readable (JString backup_text))"
    by (simp add: restore_state_def)
  have confirmed: "window_confirm quiet_env (moment (counselor_world ''dr-sato''))"
    by (simp add: quiet_env_fields)
  have parsed: "JSON_parse quiet_env backup_text = Some backup_document"
    by (simp add: quiet_env_fields sample_parse_values)
  have version: "truthy (field (field backup_document ''metadata'') ''version'')"
    by (simp add: backup_document_def)
  have saved: "field backup_document ''localStorage'' = JObject ?saved"
    by (simp add: backup_document_def)
  have marker: "localStorage (counselor_world ''dr-sato'') ''current_counselor'' = Some ''dr-sato''"
    by (simp add: counselor_world_def empty_world_def)
  have written: "[''current_counselor'' \<mapsto> ''dr-sato'']
      ++ map_of (rev (map (\<lambda>(key, v). (key, serialize quiet_env v)) ?saved)) =
      [''current_counselor'' \<mapsto> ''dr-sato'', ''journalEntries'' \<mapsto> ''[]'',
       ''auto_sync_enabled'' \<mapsto> ''true'', ''visits'' \<mapsto> ''7'']"
    by (auto simp add: serialize_def quiet_env_fields sample_stringify_def map_add_def fun_eq_iff)
  have old: "localStorage (counselor_world ''dr-sato'') ''line-username'' = Some ''alice''"
    by (simp add: counselor_world_def empty_world_def)
  note with_section = restore_preserves_session_marker [OF chosen confirmed parsed version]
  have completed: "status (fst (handleRestoreFromBackup quiet_env (restore_state backup_text)
      (counselor_world ''dr-sato''))) = Some (Status RestoreCompleted True)"
    using with_section unfolding Let_def by (elim conjE) assumption
  have "truthy (field backup_document ''localStorage'') \<longrightarrow>
      localStorage (snd (handleRestoreFromBackup quiet_env (restore_state backup_text)
         (counselor_world ''dr-sato''))) =
      (case localStorage (counselor_world ''dr-sato'') ''current_counselor'' of
         None \<Rightarrow> Map.empty
       | Some marker \<Rightarrow> if marker = [] then Map.empty else [''current_counselor'' \<mapsto> marker])
      ++ map_of (rev (map (\<lambda>(key, v). (key, serialize quiet_env v))
           (Object_entries quiet_env (field backup_document ''localStorage''))))"
    using with_section unfolding Let_def by (elim conjE) assumption
  then have store: "localStorage (snd (handleRestoreFromBackup quiet_env (restore_state backup_text)
         (counselor_world ''dr-sato''))) =
      [''current_counselor'' \<mapsto> ''dr-sato'']
      ++ map_of (rev (map (\<lambda>(key, v). (key, serialize quiet_env v)) ?saved))"
    unfolding saved marker by (simp add: Object_entries_def)
  have chosen': "backupFile (restore_state backup_text_without_section) =
      Some (Readable (JString backup_text_without_section))"
    by (simp add: restore_state_def)
  have parsed': "JSON_parse quiet_env backup_text_without_section = Some backup_without_section"
    by (simp add: quiet_env_fields sample_parse_values)
  have version': "truthy (field (field backup_without_section ''metadata'') ''version'')"
    by (simp add: backup_without_section_def)
  have lacking: "\<not> truthy (field backup_without_section ''localStorage'')"
    by (simp add: backup_without_section_def)
  note without_section = restore_preserves_session_marker [OF chosen' confirmed parsed' version']
  have completed': "status (fst (handleRestoreFromBackup quiet_env
      (restore_state backup_text_without_section) (counselor_world ''dr-sato''))) =
      Some (Status RestoreCompleted True)"
    using without_section unfolding Let_def by (elim conjE) assumption
  have "\<not> truthy (field backup_without_section ''localStorage'') \<longrightarrow>
      localStorage (snd (handleRestoreFromBackup quiet_env (restore_state backup_text_without_section)
         (counselor_world ''dr-sato''))) = localStorage (counselor_world ''dr-sato'')"
    using without_section unfolding Let_def by (elim conjE) assumption
  then have untouched: "localStorage (snd (handleRestoreFromBackup quiet_env
      (restore_state backup_text_without_section) (counselor_world ''dr-sato''))) =
      localStorage (counselor_world ''dr-sato'')"
    using lacking by blast
  show ?thesis
    using completed store [unfolded written] old completed' untouched by (intro conjI)
qed

text \<open>
  C8 as stated fails in two ways. For a marker that is set to the empty string: line 210
  does not keep it, and after the restore the key is absent. And for a document that
  holds a version and no \<open>localStorage\<close> section: the restore ends with the status of
  success and nothing is cleared, the keys \<open>journalEntries\<close> and \<open>line-username\<close> hold what
  they held.
\<close>

theorem session_marker_counterexample:
  "localStorage (counselor_world []) ''current_counselor'' = Some []
   \<and> JSON_parse quiet_env backup_text = Some backup_document
   \<and> map_of [(''journalEntries'', JArray []), (''auto_sync_enabled'', JString ''true''),
              (''visits'', JNumber (Fin 7))] ''current_counselor'' = None
   \<and> status (fst (handleRestoreFromBackup quiet_env (restore_state backup_text) (counselor_world [])))
       = Some (Status RestoreCompleted True)
   \<and> localStorage (snd (handleRestoreFromBackup quiet_env (restore_state backup_text)
         (counselor_world []))) ''current_counselor'' = None
   \<and> JSON_parse quiet_env backup_text_without_section = Some backup_without_section
   \<and> field backup_without_section ''localStorage'' = JUndefined
   \<and> status (fst (handleRestoreFromBackup quiet_env (restore_state backup_text_without_section)
         (counselor_world ''dr-sato''))) = Some (Status RestoreCompleted True)
   \<and> localStorage (snd (handleRestoreFromBackup quiet_env (restore_state backup_text_without_section)
         (counselor_world ''dr-sato''))) ''journalEntries'' = Some ''[1]''
   \<and> localStorage (snd (handleRestoreFromBackup quiet_env (restore_state backup_text_without_section)
         (counselor_world ''dr-sato''))) ''line-username'' = Some ''alice''"
proof -
  have parsed: "JSON_parse quiet_env backup_text = Some backup_document"
    by (simp add: quiet_env_fields sample_parse_values)
  have run: "handleRestoreFromBackup quiet_env (restore_state backup_text) (counselor_world []) =
      ((restore_state backup_text)\<lparr>restoreInProgress := True,
          status := Some (Status RestoreCompleted True)\<rparr>,
       emit ReloadScheduled
         (restoreLocalStorage quiet_env (field backup_document ''localStorage'') (counselor_world [])))"
    by (simp add: handleRestoreFromBackup_def onload_def restore_state_def Let_def
        quiet_env_fields sample_parse_values backup_document_def)
  have store: "localStorage (restoreLocalStorage quiet_env (field backup_document ''localStorage'')
      (counselor_world [])) ''current_counselor'' = None"
    by (simp add: restoreLocalStorage_store Object_entries_def backup_document_def
        counselor_world_def empty_world_def map_add_def)
  have before: "localStorage (counselor_world []) ''current_counselor'' = Some []"
    by (simp add: counselor_world_def empty_world_def)
  have lacks: "map_of [(''journalEntries'', JArray []), (''auto_sync_enabled'', JString ''true''),
      (''visits'', JNumber (Fin 7))] ''current_counselor'' = None"
    by simp
  have completed: "status (fst (handleRestoreFromBackup quiet_env (restore_state backup_text)
      (counselor_world []))) = Some (Status RestoreCompleted True)"
    unfolding run by simp
  have after: "localStorage (snd (handleRestoreFromBackup quiet_env (restore_state backup_text)
      (counselor_world []))) ''current_counselor'' = None"
    unfolding run using store by simp
  have parsed': "JSON_parse quiet_env backup_text_without_section = Some backup_without_section"
    by (simp add: quiet_env_fields sample_parse_values)
  have lacking: "field backup_without_section ''localStorage'' = JUndefined"
    by (simp add: backup_without_section_def)
  have run': "handleRestoreFromBackup quiet_env (restore_state backup_text_without_section)
        (counselor_world ''dr-sato'') =
      ((restore_state backup_text_without_section)\<lparr>restoreInProgress := True,
          status := Some (Status RestoreCompleted True)\<rparr>,
       emit ReloadScheduled (counselor_world ''dr-sato''))"
    by (simp add: handleRestoreFromBackup_def onload_def restore_state_def Let_def
        quiet_env_fields sample_parse_values backup_without_section_def)
  have completed': "status (fst (handleRestoreFromBackup quiet_env
      (restore_state backup_text_without_section) (counselor_world ''dr-sato''))) =
      Some (Status RestoreCompleted True)"
    unfolding run' by simp
  have journal: "localStorage (snd (handleRestoreFromBackup quiet_env
      (restore_state backup_text_without_section) (counselor_world ''dr-sato''))) ''journalEntries'' =
      Some ''[1]''"
    unfolding run' by (simp add: counselor_world_def empty_world_def)
  have name: "localStorage (snd (handleRestoreFromBackup quiet_env
      (restore_state backup_text_without_section) (counselor_world ''dr-sato''))) ''line-username'' =
      Some ''alice''"
    unfolding run' by (simp add: counselor_world_def empty_world_def)
  show ?thesis
    using before parsed lacks completed after parsed' lacking completed' journal name
    by (intro conjI)
qed

end
